theory Spec2Isabelle
  imports Complex_Main
begin

section \<open>The poinz client: folding backend events into the room state\<close>

text \<open>
  The event reducer of the client takes the current room state and an action that carries
  a backend event, and returns the next room state. It is written in JavaScript, on plain
  objects. The embedding below follows the source function by function.

  \<^item> An object used as a dictionary (users, stories, estimations) maps each property name
    to its own property: no such property, a property that holds \<open>undefined\<close>, or a
    property that holds a value. Writing \<open>undefined\<close> under a key and deleting the key
    are different updates, as they are in the source. The ids of users and stories come
    from the server and are taken not to be names that every object inherits
    (\<open>constructor\<close>, \<open>toString\<close>, ...), so a dictionary is read for its own entries. The
    table of handlers is read with the inherited names, since the type of an action can be
    any string.
  \<^item> The fields of the state, of a user, of a story and of a payload are given by what
    reading them returns, \<open>None\<close> for \<open>undefined\<close>. The \<open>consensus\<close> of a story is
    kept as a property, since a handler writes \<open>undefined\<close> to it by name.
  \<^item> Ids, names, tokens and reasons are strings or \<open>undefined\<close>; flags are booleans or
    \<open>undefined\<close>; estimation values are numbers or \<open>undefined\<close>.
  \<^item> Reading a property of \<open>undefined\<close> throws a \<open>TypeError\<close>; every such read is a
    branch of the model.
  \<^item> The state objects live in a store, so that "the same object" and "a new object" are
    different results, and a write into the input object is visible.
  \<^item> Calls to the client settings store and to the logger are recorded in a trace.
\<close>

subsection \<open>Values\<close>

text \<open>Estimation values, avatars and timestamps are numbers.\<close>

type_synonym number = rat

datatype exn = TypeError

text \<open>Truthiness of a string-or-undefined and of a boolean-or-undefined value.\<close>

definition truthy :: "string option \<Rightarrow> bool" where
  "truthy v = (case v of None \<Rightarrow> False | Some s \<Rightarrow> s \<noteq> [])"

definition truthyB :: "bool option \<Rightarrow> bool" where
  "truthyB v = (case v of None \<Rightarrow> False | Some b \<Rightarrow> b)"

definition truthyN :: "number option \<Rightarrow> bool" where
  "truthyN v = (case v of None \<Rightarrow> False | Some n \<Rightarrow> n \<noteq> 0)"

text \<open>\<open>a || b\<close> on strings.\<close>

definition orElse :: "string option \<Rightarrow> string option \<Rightarrow> string option" where
  "orElse a b = (if truthy a then a else b)"

text \<open>A string-or-undefined value inside a template literal.\<close>

definition str :: "string option \<Rightarrow> string" where
  "str v = (case v of None \<Rightarrow> ''undefined'' | Some s \<Rightarrow> s)"

text \<open>A string-or-undefined value used as a computed property name.\<close>

definition propKey :: "string option \<Rightarrow> string" where
  "propKey v = str v"

text \<open>\<open>String.prototype.includes\<close>.\<close>

fun startsWith :: "string \<Rightarrow> string \<Rightarrow> bool" where
  "startsWith s [] = True"
| "startsWith [] (c # cs) = False"
| "startsWith (x # xs) (c # cs) = (x = c \<and> startsWith xs cs)"

fun str_includes :: "string \<Rightarrow> string \<Rightarrow> bool" where
  "str_includes [] sub = (sub = [])"
| "str_includes (x # xs) sub = (startsWith (x # xs) sub \<or> str_includes xs sub)"

text \<open>
  An own property of an object: \<open>None\<close> when the object has no such property,
  \<open>Some None\<close> when it has one that holds \<open>undefined\<close>, \<open>Some (Some v)\<close> when it
  holds the value \<open>v\<close>. Reading gives \<open>undefined\<close> in the first two cases. A dictionary
  has a property, or none, for every name; \<open>d(k \<mapsto> x)\<close> writes \<open>x\<close> (a value or
  \<open>undefined\<close>) under \<open>k\<close>, and \<open>d(k := None)\<close> deletes \<open>k\<close>.
\<close>

type_synonym 'v property = "'v option option"

type_synonym 'v dict = "string \<Rightarrow> 'v property"

definition held :: "'v property \<Rightarrow> 'v option" where
  "held p = (case p of None \<Rightarrow> None | Some v \<Rightarrow> v)"

text \<open>
  \<open>{...obj}\<close>: spreading \<open>undefined\<close> gives no properties; spreading an object copies
  its own properties, also those that hold \<open>undefined\<close>. \<open>obj[key]\<close>: reading from
  \<open>undefined\<close> throws. \<open>hasOwnProperty\<close>: whether the key is there, whatever it holds.
\<close>

definition spread :: "'v dict option \<Rightarrow> 'v dict" where
  "spread obj = (case obj of None \<Rightarrow> (\<lambda>k. None) | Some m \<Rightarrow> m)"

definition getProp :: "'v dict option \<Rightarrow> string option \<Rightarrow> exn + 'v option" where
  "getProp obj k =
     (case obj of None \<Rightarrow> Inl TypeError | Some m \<Rightarrow> Inr (held (m (propKey k))))"

definition hasOwnProperty :: "'v dict option \<Rightarrow> string option \<Rightarrow> bool" where
  "hasOwnProperty obj k = (case obj of None \<Rightarrow> False | Some m \<Rightarrow> m (propKey k) \<noteq> None)"

text \<open>\<open>obj[key].field\<close>: throws when \<open>obj\<close> or \<open>obj[key]\<close> is \<open>undefined\<close>.\<close>

definition getMember :: "'v dict option \<Rightarrow> string option \<Rightarrow> exn + 'v" where
  "getMember obj k =
     (case obj of None \<Rightarrow> Inl TypeError
      | Some m \<Rightarrow> (case held (m (propKey k)) of None \<Rightarrow> Inl TypeError | Some v \<Rightarrow> Inr v))"

definition bindE :: "exn + 'a \<Rightarrow> ('a \<Rightarrow> exn + 'b) \<Rightarrow> exn + 'b" where
  "bindE m f = (case m of Inl e \<Rightarrow> Inl e | Inr x \<Rightarrow> f x)"

subsection \<open>The room state\<close>

record user =
  u_id :: "string option"
  u_username :: "string option"
  u_email :: "string option"
  u_emailHash :: "string option"
  u_avatar :: "number option"
  u_excluded :: "bool option"
  u_disconnected :: "bool option"

record story =
  s_id :: "string option"
  s_title :: "string option"
  s_description :: "string option"
  s_createdAt :: "number option"
  s_trashed :: "bool option"
  s_revealed :: "bool option"
  s_consensus :: "number property"
  s_editMode :: "bool option"

text \<open>A story as the server sends it on join: it carries its estimations.\<close>

record serverStory = story +
  s_estimations :: "number dict option"

record card =
  c_label :: "string option"
  c_value :: "number option"

record logItem =
  tstamp :: string
  logId :: string
  message :: "string option"
  isError :: "bool option"

text \<open>
  The fields of the state that the reducer reads or writes. The state of the client has
  more fields, for the user interface; every update of the reducer copies them as they
  are.
\<close>

record state =
  roomId :: "string option"
  userId :: "string option"
  users :: "user dict option"
  stories :: "story dict option"
  estimations :: "number dict dict option"
  selectedStory :: "string option"
  highlightedStory :: "string option"
  cardConfig :: "card list option"
  autoReveal :: "bool option"
  passwordProtected :: "bool option"
  applause :: "bool option"
  actionLog :: "logItem list option"
  pendingJoinCommandId :: "string option"
  authorizationFailed :: "string option"
  unseenError :: "bool option"
  userToken :: "string option"
  presetUsername :: "string option"
  presetEmail :: "string option"
  presetAvatar :: "number option"

text \<open>The object \<open>{}\<close> read as a user or as a story.\<close>

definition emptyUser :: user where
  "emptyUser = \<lparr>u_id = None, u_username = None, u_email = None, u_emailHash = None,
     u_avatar = None, u_excluded = None, u_disconnected = None\<rparr>"

definition emptyStory :: story where
  "emptyStory = \<lparr>s_id = None, s_title = None, s_description = None, s_createdAt = None,
     s_trashed = None, s_revealed = None, s_consensus = None, s_editMode = None\<rparr>"

definition spreadUser :: "user option \<Rightarrow> user" where
  "spreadUser u = (case u of None \<Rightarrow> emptyUser | Some v \<Rightarrow> v)"

definition spreadStory :: "story option \<Rightarrow> story" where
  "spreadStory s = (case s of None \<Rightarrow> emptyStory | Some v \<Rightarrow> v)"

subsection \<open>Events and actions\<close>

record command =
  cmd_name :: "string option"
  cmd_roomId :: "string option"

text \<open>
  The payload of an event, with every property that some handler reads. A payload of one
  event kind has the properties of the other kinds \<open>undefined\<close>.
\<close>

record payload =
  p_id :: "string option"
  p_selectedStory :: "string option"
  p_users :: "user list option"
  p_stories :: "serverStory list option"
  p_cardConfig :: "card list option"
  p_autoReveal :: "bool option"
  p_passwordProtected :: "bool option"
  p_userId :: "string option"
  p_storyId :: "string option"
  p_title :: "string option"
  p_description :: "string option"
  p_createdAt :: "number option"
  p_message :: "string option"
  p_username :: "string option"
  p_email :: "string option"
  p_emailHash :: "string option"
  p_avatar :: "number option"
  p_value :: "number option"
  p_manually :: "bool option"
  p_token :: "string option"
  p_command :: "command option"
  p_reason :: "string option"

record event =
  e_name :: "string option"
  e_roomId :: "string option"
  e_userId :: "string option"
  e_correlationId :: "string option"
  e_payload :: "payload option"

record action =
  a_type :: string
  a_event :: event

subsection \<open>The collaborators of the reducer\<close>

text \<open>
  The reducer imports \<open>initialState\<close>, the three indexers of \<open>roomStateMapper\<close>,
  \<open>getCardConfigForValue\<close> and \<open>formatTime\<close>, and it calls \<open>Date.now()\<close> and
  \<open>uuid()\<close>. Their code is not part of the reducer; the model takes what they return as
  parameters, so every theorem holds for any of them. \<open>formattedNow\<close> is
  \<open>formatTime(Date.now())\<close> and \<open>freshUuid\<close> is \<open>uuid()\<close>, at the one place where the
  reducer calls them. \<open>numberToString\<close> is the conversion of a number inside a template
  literal.
\<close>

record env =
  initialState :: state
  indexUsers :: "user list option \<Rightarrow> user dict"
  indexStories :: "serverStory list option \<Rightarrow> story dict"
  indexEstimations :: "serverStory list option \<Rightarrow> number dict dict"
  getCardConfigForValue :: "card list option \<Rightarrow> number option \<Rightarrow> card option"
  formattedNow :: string
  freshUuid :: string
  numberToString :: "number \<Rightarrow> string"

text \<open>What the reducer does to the outside, in the order in which it does it.\<close>

datatype effect =
    SetPresetUsername "string option"
  | SetPresetEmail "string option"
  | SetPresetAvatar "number option"
  | SetPresetUserId "string option"
  | WarnDifferentRoom "string option" "string option" "string option"
  | WarnNoHandler action
  | LogError event

subsection \<open>The handlers: transition functions and log functions\<close>

text \<open>
  A transition function returns its \<open>state\<close> parameter itself (\<open>TheState\<close>), an object
  literal that spreads it (\<open>NewObject\<close>, with the contents of the new object), or, for a
  handler outside the table, a falsy value. None of the transition functions writes into
  an existing state object: each one copies what it changes. It is paired with the calls
  it makes to the outside before it returns or throws.

  A log descriptor is absent, a string or a function; a log function returns
  \<open>undefined\<close>, a string or an object \<open>{message, isError}\<close>.
\<close>

datatype fnResult = TheState | NewObject state | Falsy

datatype messageObject = Undefined | Message string | MessageObject "string option" "bool option"

type_synonym logFunction =
  "string \<Rightarrow> payload option \<Rightarrow> state \<Rightarrow> state \<Rightarrow> event \<Rightarrow> exn + messageObject"

datatype logDescriptor = LogAbsent | LogString string | LogFunction logFunction

type_synonym transition =
  "state \<Rightarrow> payload option \<Rightarrow> event \<Rightarrow> effect list \<times> (exn + fnResult)"

record handler =
  h_fn :: transition
  h_log :: logDescriptor

text \<open>\<open>payload.field\<close> throws when the event has no payload.\<close>

definition payloadOf :: "payload option \<Rightarrow> exn + payload" where
  "payloadOf payload = (case payload of None \<Rightarrow> Inl TypeError | Some p \<Rightarrow> Inr p)"

definition quoted :: "string \<Rightarrow> string" where
  "quoted s = CHR 0x22 # s @ [CHR 0x22]"

definition orNewUser :: "string option \<Rightarrow> string" where
  "orNewUser name = str (orElse name (Some ''New user''))"

paragraph \<open>roomCreated, importFailed\<close>

definition roomCreated_fn :: transition where
  "roomCreated_fn state payload event = ([], Inr TheState)"

definition roomCreated_log :: logFunction where
  "roomCreated_log username payload oldState newState event =
     bindE (payloadOf payload) (\<lambda>p.
       Inr (Message (''Room '' @ quoted (str (p_id p)) @ '' created'')))"

definition importFailed_fn :: transition where
  "importFailed_fn state payload event = ([], Inr TheState)"

definition importFailed_log :: logFunction where
  "importFailed_log username payload oldState newState event =
     bindE (payloadOf payload) (\<lambda>p.
       Inr (Message (''CSV import failed. '' @ str (p_message p))))"

paragraph \<open>joinedRoom\<close>

definition joinedRoom_fn :: "env \<Rightarrow> transition" where
  "joinedRoom_fn env state payload event =
     (if truthy (pendingJoinCommandId state)
         \<and> pendingJoinCommandId state = e_correlationId event
      then
        ([SetPresetUserId (e_userId event)],
         bindE (payloadOf payload) (\<lambda>p.
           Inr (NewObject (state\<lparr>
             roomId := e_roomId event,
             userId := e_userId event,
             selectedStory := p_selectedStory p,
             highlightedStory := p_selectedStory p,
             users := Some (indexUsers env (p_users p)),
             stories := Some (indexStories env (p_stories p)),
             estimations := Some (indexEstimations env (p_stories p)),
             pendingJoinCommandId := None,
             authorizationFailed := None,
             cardConfig := p_cardConfig p,
             autoReveal := p_autoReveal p,
             passwordProtected := Some (truthyB (p_passwordProtected p))\<rparr>))))
      else
        ([],
         bindE (payloadOf payload) (\<lambda>p.
           Inr (NewObject (state\<lparr>users := Some (indexUsers env (p_users p))\<rparr>)))))"

definition joinedRoom_log :: logFunction where
  "joinedRoom_log username payload oldState newState event =
     (let youJoined = \<not> truthy (userId oldState) in
      if youJoined then Inr (Message (''You joined room '' @ quoted (str (roomId newState))))
      else bindE (getMember (users newState) (e_userId event)) (\<lambda>u.
             Inr (Message (orNewUser (u_username u) @ '' joined''))))"

paragraph \<open>leftRoom, kicked, connectionLost\<close>

definition leftRoom_fn :: "env \<Rightarrow> transition" where
  "leftRoom_fn env state payload event =
     ([],
      if userId state = e_userId event then Inr (NewObject (initialState env))
      else
        (let modifiedUsers = (spread (users state))(propKey (e_userId event) := None)
         in Inr (NewObject (state\<lparr>users := Some modifiedUsers\<rparr>))))"

definition leftRoom_log :: logFunction where
  "leftRoom_log username payload oldState newState event =
     bindE (getMember (users oldState) (e_userId event)) (\<lambda>u.
       Inr (Message (orNewUser (u_username u) @ '' left the room'')))"

definition kicked_fn :: "env \<Rightarrow> transition" where
  "kicked_fn env state payload event =
     ([],
      bindE (payloadOf payload) (\<lambda>p.
        if p_userId p = userId state then Inr (NewObject (initialState env))
        else
          (let modifiedUsers = (spread (users state))(propKey (p_userId p) := None)
           in Inr (NewObject (state\<lparr>users := Some modifiedUsers\<rparr>)))))"

definition kicked_log :: logFunction where
  "kicked_log username payload oldState modifiedState event =
     bindE (payloadOf payload) (\<lambda>p.
     bindE (getMember (users oldState) (p_userId p)) (\<lambda>kickedUser.
     bindE (getMember (users oldState) (e_userId event)) (\<lambda>kickingUser.
       Inr (Message (orNewUser (u_username kickedUser) @ '' was kicked from the room by ''
                      @ str (u_username kickingUser))))))"

definition connectionLost_fn :: transition where
  "connectionLost_fn state payload event =
     ([],
      case users state of
        None \<Rightarrow> Inr TheState
      | Some m \<Rightarrow>
          (case held (m (propKey (e_userId event))) of
             None \<Rightarrow> Inr TheState
           | Some u \<Rightarrow>
               Inr (NewObject (state\<lparr>users :=
                 Some (m(propKey (e_userId event) \<mapsto>
                   Some (u\<lparr>u_disconnected := Some True\<rparr>)))\<rparr>))))"

definition connectionLost_log :: logFunction where
  "connectionLost_log username payload oldState newState event =
     Inr (Message (orNewUser (Some username) @ '' lost the connection''))"

paragraph \<open>Stories\<close>

definition storyAdded_fn :: transition where
  "storyAdded_fn state payload event =
     ([],
      bindE (payloadOf payload) (\<lambda>p.
        let modifiedStories = (spread (stories state))(propKey (p_storyId p) \<mapsto>
              Some (emptyStory\<lparr>s_id := p_storyId p, s_title := p_title p,
                s_description := p_description p, s_createdAt := p_createdAt p\<rparr>))
        in Inr (NewObject (state\<lparr>stories := Some modifiedStories\<rparr>))))"

definition storyAdded_log :: logFunction where
  "storyAdded_log username payload oldState newState event =
     bindE (payloadOf payload) (\<lambda>p.
       Inr (Message (username @ '' added new story '' @ quoted (str (p_title p)))))"

definition storyChanged_fn :: transition where
  "storyChanged_fn state payload event =
     ([],
      bindE (payloadOf payload) (\<lambda>p.
      bindE (getProp (stories state) (p_storyId p)) (\<lambda>old.
        let modifiedStory = (spreadStory old)\<lparr>s_title := p_title p,
              s_description := p_description p, s_editMode := Some False\<rparr>
        in Inr (NewObject (state\<lparr>stories :=
              Some ((spread (stories state))(propKey (p_storyId p) \<mapsto> Some modifiedStory))\<rparr>)))))"

definition storyChanged_log :: logFunction where
  "storyChanged_log username payload oldState newState event =
     bindE (payloadOf payload) (\<lambda>p.
       Inr (Message (username @ '' changed story '' @ quoted (str (p_title p)))))"

definition storyTrashed_fn :: transition where
  "storyTrashed_fn state payload event =
     ([],
      bindE (payloadOf payload) (\<lambda>p.
      bindE (getProp (stories state) (p_storyId p)) (\<lambda>old.
        let modifiedStory = (spreadStory old)\<lparr>s_trashed := Some True\<rparr>
        in Inr (NewObject (state\<lparr>
              highlightedStory :=
                (if highlightedStory state = p_storyId p then None else highlightedStory state),
              stories :=
                Some ((spread (stories state))(propKey (p_storyId p) \<mapsto> Some modifiedStory))\<rparr>)))))"

definition storyTrashed_log :: logFunction where
  "storyTrashed_log username payload oldState newState event =
     bindE (payloadOf payload) (\<lambda>p.
     bindE (getMember (stories oldState) (p_storyId p)) (\<lambda>s.
       let storyTitle = s_title s
       in Inr (Message (username @ '' moved story '' @ quoted (str storyTitle) @ '' to trash''))))"

definition storyRestored_fn :: transition where
  "storyRestored_fn state payload event =
     ([],
      bindE (payloadOf payload) (\<lambda>p.
      bindE (getProp (stories state) (p_storyId p)) (\<lambda>old.
        let modifiedStory = (spreadStory old)\<lparr>s_trashed := Some False\<rparr>
        in Inr (NewObject (state\<lparr>stories :=
              Some ((spread (stories state))(propKey (p_storyId p) \<mapsto> Some modifiedStory))\<rparr>)))))"

definition storyRestored_log :: logFunction where
  "storyRestored_log username payload oldState newState event =
     bindE (payloadOf payload) (\<lambda>p.
     bindE (getMember (stories oldState) (p_storyId p)) (\<lambda>s.
       let storyTitle = s_title s
       in Inr (Message (username @ '' restored story '' @ quoted (str storyTitle)
                         @ '' from trash''))))"

definition storyDeleted_fn :: transition where
  "storyDeleted_fn state payload event =
     ([],
      bindE (payloadOf payload) (\<lambda>p.
        let modifiedStories = (spread (stories state))(propKey (p_storyId p) := None)
        in Inr (NewObject (state\<lparr>stories := Some modifiedStories\<rparr>))))"

definition storyDeleted_log :: "env \<Rightarrow> logFunction" where
  "storyDeleted_log env username payload oldState newState event =
     bindE (payloadOf payload) (\<lambda>p.
     bindE (getMember (stories oldState) (p_storyId p)) (\<lambda>s.
       let storyTitle = s_title s;
           consensus = held (s_consensus s);
           logline = username @ '' deleted story '' @ quoted (str storyTitle)
       in Inr (Message
            (if truthyN consensus
             then logline @ ''. It was estimated ''
                    @ (case consensus of None \<Rightarrow> ''undefined'' | Some n \<Rightarrow> numberToString env n)
             else logline))))"

definition storySelected_fn :: transition where
  "storySelected_fn state payload event =
     ([],
      bindE (payloadOf payload) (\<lambda>p.
        Inr (NewObject (state\<lparr>
          selectedStory := p_storyId p,
          highlightedStory := orElse (highlightedStory state) (p_storyId p),
          applause := Some False\<rparr>))))"

definition storySelected_log :: logFunction where
  "storySelected_log username payload oldState newState event =
     bindE (payloadOf payload) (\<lambda>p.
       if truthy (p_storyId p)
       then bindE (getMember (stories newState) (p_storyId p)) (\<lambda>s.
              Inr (Message (username @ '' selected current story '' @ quoted (str (s_title s)))))
       else Inr (Message ''Currently no story is selected''))"

paragraph \<open>usernameSet, emailSet, avatarSet, excluded and included\<close>

definition usernameSet_fn :: transition where
  "usernameSet_fn state payload event =
     (let isOwnUser = (userId state = e_userId event) in
      case payload of
        None \<Rightarrow> ([], Inl TypeError)
      | Some p \<Rightarrow>
          ((if isOwnUser then [SetPresetUsername (p_username p)] else []),
           bindE (getProp (users state) (e_userId event)) (\<lambda>old.
             let modifiedUsers = (spread (users state))(propKey (e_userId event) \<mapsto>
                   Some ((spreadUser old)\<lparr>u_username := p_username p\<rparr>))
             in Inr (NewObject (state\<lparr>
                  users := Some modifiedUsers,
                  presetUsername :=
                    (if isOwnUser then p_username p else presetUsername state)\<rparr>)))))"

definition usernameSet_log :: logFunction where
  "usernameSet_log username payload oldState newState event =
     bindE (getMember (users oldState) (e_userId event)) (\<lambda>u.
     bindE (payloadOf payload) (\<lambda>p.
       let oldUsername = u_username u;
           newUsername = p_username p
       in if truthy oldUsername \<and> oldUsername \<noteq> newUsername
          then Inr (Message (quoted (str oldUsername) @ '' is now called ''
                              @ quoted (str newUsername)))
          else if \<not> truthy oldUsername \<and> truthy newUsername
          then Inr (Message (''New user is now called '' @ quoted (str newUsername)))
          else Inr Undefined))"

definition emailSet_fn :: transition where
  "emailSet_fn state payload event =
     (let isOwnUser = (userId state = e_userId event) in
      case payload of
        None \<Rightarrow> ([], Inl TypeError)
      | Some p \<Rightarrow>
          ((if isOwnUser then [SetPresetEmail (p_email p)] else []),
           bindE (getProp (users state) (e_userId event)) (\<lambda>old.
             Inr (NewObject (state\<lparr>
               users := Some ((spread (users state))(propKey (e_userId event) \<mapsto>
                 Some ((spreadUser old)\<lparr>u_email := p_email p, u_emailHash := p_emailHash p\<rparr>))),
               presetEmail := (if isOwnUser then p_email p else presetEmail state)\<rparr>)))))"

definition emailSet_log :: logFunction where
  "emailSet_log username payload oldState newState event =
     bindE (getMember (users oldState) (e_userId event)) (\<lambda>u.
       Inr (Message (str (u_username u) @ '' set his/her email address'')))"

definition avatarSet_fn :: transition where
  "avatarSet_fn state payload event =
     (let isOwnUser = (userId state = e_userId event) in
      case payload of
        None \<Rightarrow> ([], Inl TypeError)
      | Some p \<Rightarrow>
          ((if isOwnUser then [SetPresetAvatar (p_avatar p)] else []),
           bindE (getProp (users state) (e_userId event)) (\<lambda>old.
             Inr (NewObject (state\<lparr>
               users := Some ((spread (users state))(propKey (e_userId event) \<mapsto>
                 Some ((spreadUser old)\<lparr>u_avatar := p_avatar p\<rparr>))),
               presetAvatar := (if isOwnUser then p_avatar p else presetAvatar state)\<rparr>)))))"

definition avatarSet_log :: logFunction where
  "avatarSet_log username payload oldState newState event =
     bindE (getMember (users oldState) (e_userId event)) (\<lambda>u.
       Inr (Message (orNewUser (u_username u) @ '' set his/her avatar'')))"

definition excludedFromEstimations_fn :: transition where
  "excludedFromEstimations_fn state payload event =
     ([],
      bindE (getProp (users state) (e_userId event)) (\<lambda>old.
        Inr (NewObject (state\<lparr>users :=
          Some ((spread (users state))(propKey (e_userId event) \<mapsto>
            Some ((spreadUser old)\<lparr>u_excluded := Some True\<rparr>)))\<rparr>))))"

definition excludedFromEstimations_log :: logFunction where
  "excludedFromEstimations_log username payload oldState newState event =
     Inr (Message (username @ '' is now excluded from estimations''))"

definition includedInEstimations_fn :: transition where
  "includedInEstimations_fn state payload event =
     ([],
      bindE (getProp (users state) (e_userId event)) (\<lambda>old.
        Inr (NewObject (state\<lparr>users :=
          Some ((spread (users state))(propKey (e_userId event) \<mapsto>
            Some ((spreadUser old)\<lparr>u_excluded := Some False\<rparr>)))\<rparr>))))"

definition includedInEstimations_log :: logFunction where
  "includedInEstimations_log username payload oldState newState event =
     Inr (Message (username @ '' is no longer excluded from estimations''))"

paragraph \<open>Estimations\<close>

definition storyEstimateGiven_fn :: transition where
  "storyEstimateGiven_fn state payload event =
     ([],
      bindE (payloadOf payload) (\<lambda>p.
      bindE (getProp (estimations state) (p_storyId p)) (\<lambda>old.
        Inr (NewObject (state\<lparr>estimations :=
          Some ((spread (estimations state))(propKey (p_storyId p) \<mapsto>
            Some ((spread old)(propKey (e_userId event) \<mapsto> p_value p))))\<rparr>)))))"

definition consensusAchieved_fn :: transition where
  "consensusAchieved_fn state payload event =
     ([],
      bindE (payloadOf payload) (\<lambda>p.
      bindE (getProp (stories state) (p_storyId p)) (\<lambda>old.
        Inr (NewObject (state\<lparr>
          applause := Some True,
          stories := Some ((spread (stories state))(propKey (p_storyId p) \<mapsto>
            Some ((spreadStory old)\<lparr>s_consensus := Some (p_value p)\<rparr>)))\<rparr>)))))"

definition consensusAchieved_log :: "env \<Rightarrow> logFunction" where
  "consensusAchieved_log env username eventPayload oldState modifiedState event =
     bindE (payloadOf eventPayload) (\<lambda>p.
     bindE (getMember (stories modifiedState) (p_storyId p)) (\<lambda>s.
       let matchingCardConfig =
             getCardConfigForValue env (cardConfig oldState) (held (s_consensus s))
       in Inr (Message (''Consensus achieved for story '' @ quoted (str (s_title s)) @ '': ''
            @ (case matchingCardConfig of None \<Rightarrow> ''-'' | Some c \<Rightarrow> str (c_label c))))))"

definition storyEstimateCleared_fn :: transition where
  "storyEstimateCleared_fn state payload event =
     ([],
      bindE (payloadOf payload) (\<lambda>p.
      bindE (getProp (estimations state) (p_storyId p)) (\<lambda>old.
        let modifiedEstimations = (spread old)(propKey (e_userId event) := None)
        in Inr (NewObject (state\<lparr>estimations :=
             Some ((spread (estimations state))(propKey (p_storyId p) \<mapsto>
               Some modifiedEstimations))\<rparr>)))))"

definition revealed_fn :: transition where
  "revealed_fn state payload event =
     ([],
      bindE (payloadOf payload) (\<lambda>p.
      bindE (getProp (stories state) (p_storyId p)) (\<lambda>old.
        Inr (NewObject (state\<lparr>stories :=
          Some ((spread (stories state))(propKey (p_storyId p) \<mapsto>
            Some ((spreadStory old)\<lparr>s_revealed := Some True\<rparr>)))\<rparr>)))))"

definition revealed_log :: logFunction where
  "revealed_log username payload oldState modifiedState event =
     bindE (payloadOf payload) (\<lambda>p.
       if truthyB (p_manually p)
       then bindE (getMember (stories modifiedState) (p_storyId p)) (\<lambda>s.
              Inr (Message (username @ '' manually revealed estimates for story ''
                             @ quoted (str (s_title s)))))
       else bindE (getMember (stories modifiedState) (p_storyId p)) (\<lambda>s.
              Inr (Message (''Estimates were automatically revealed for story ''
                             @ quoted (str (s_title s))))))"

definition newEstimationRoundStarted_fn :: transition where
  "newEstimationRoundStarted_fn state payload event =
     ([],
      bindE (payloadOf payload) (\<lambda>p.
      bindE (getProp (stories state) (p_storyId p)) (\<lambda>old.
        Inr (NewObject (state\<lparr>
          applause := Some False,
          stories := Some ((spread (stories state))(propKey (p_storyId p) \<mapsto>
            Some ((spreadStory old)\<lparr>s_revealed := Some False, s_consensus := Some None\<rparr>))),
          estimations := Some ((spread (estimations state))(propKey (p_storyId p) \<mapsto> None))\<rparr>)))))"

definition newEstimationRoundStarted_log :: logFunction where
  "newEstimationRoundStarted_log username payload oldState modifiedState event =
     bindE (payloadOf payload) (\<lambda>p.
     bindE (getMember (stories modifiedState) (p_storyId p)) (\<lambda>s.
       Inr (Message (username @ '' started a new estimation round for story ''
                      @ quoted (str (s_title s))))))"

paragraph \<open>Room settings, token, rejected commands\<close>

definition cardConfigSet_fn :: transition where
  "cardConfigSet_fn state payload event =
     ([],
      bindE (payloadOf payload) (\<lambda>p.
        Inr (NewObject (state\<lparr>cardConfig := p_cardConfig p\<rparr>))))"

definition cardConfigSet_log :: logFunction where
  "cardConfigSet_log username payload oldState newState event =
     Inr (Message (username @ '' set new custom card configuration for this room''))"

definition autoRevealOn_fn :: transition where
  "autoRevealOn_fn state payload event =
     ([], Inr (NewObject (state\<lparr>autoReveal := Some True\<rparr>)))"

definition autoRevealOn_log :: logFunction where
  "autoRevealOn_log username payload oldState newState event =
     Inr (Message (username @ '' enabled auto reveal for this room''))"

definition autoRevealOff_fn :: transition where
  "autoRevealOff_fn state payload event =
     ([], Inr (NewObject (state\<lparr>autoReveal := Some False\<rparr>)))"

definition autoRevealOff_log :: logFunction where
  "autoRevealOff_log username payload oldState newState event =
     Inr (Message (username @ '' disabled auto reveal for this room''))"

definition passwordSet_fn :: transition where
  "passwordSet_fn state payload event =
     ([], Inr (NewObject (state\<lparr>passwordProtected := Some True\<rparr>)))"

definition passwordSet_log :: logFunction where
  "passwordSet_log username payload oldState newState event =
     Inr (Message (username @ '' set a password for this room''))"

definition passwordCleared_fn :: transition where
  "passwordCleared_fn state payload event =
     ([], Inr (NewObject (state\<lparr>passwordProtected := Some False\<rparr>)))"

definition passwordCleared_log :: logFunction where
  "passwordCleared_log username payload oldState newState event =
     Inr (Message (username @ '' removed password protection for this room''))"

definition tokenIssued_fn :: transition where
  "tokenIssued_fn state payload event =
     ([],
      bindE (payloadOf payload) (\<lambda>p.
        Inr (NewObject (state\<lparr>userToken := p_token p\<rparr>))))"

definition commandRejected_fn :: transition where
  "commandRejected_fn state payload event =
     ([LogError event], Inr (NewObject (state\<lparr>unseenError := Some True\<rparr>)))"

definition commandRejected_log :: logFunction where
  "commandRejected_log username payload oldState newState event =
     bindE (payloadOf payload) (\<lambda>p.
       case p_command p of
         None \<Rightarrow> Inl TypeError
       | Some c \<Rightarrow>
           Inr (MessageObject
             (Some (''Command '' @ quoted (str (cmd_name c)) @ '' was not successful. ''
                    @ [CHR 0x0A] @ '' '' @ str (p_reason p)))
             (Some True)))"

subsection \<open>The tables\<close>

text \<open>\<open>EVENT_ACTION_TYPES\<close>: from the name of a backend event to the type of its action.\<close>

definition EVENT_ACTION_TYPES :: "(string \<times> string) list" where
  "EVENT_ACTION_TYPES =
     [(''roomCreated'', ''ROOM_CREATED''),
      (''joinedRoom'', ''JOINED_ROOM''),
      (''leftRoom'', ''LEFT_ROOM''),
      (''kicked'', ''KICKED''),
      (''connectionLost'', ''CONNECTION_LOST''),
      (''commandRejected'', ''COMMAND_REJECTED''),
      (''storyAdded'', ''STORY_ADDED''),
      (''storySelected'', ''STORY_SELECTED''),
      (''importFailed'', ''IMPORT_FAILED''),
      (''usernameSet'', ''USERNAME_SET''),
      (''emailSet'', ''EMAIL_SET''),
      (''avatarSet'', ''AVATAR_SET''),
      (''storyEstimateGiven'', ''STORY_ESTIMATE_GIVEN''),
      (''consensusAchieved'', ''CONSENSUS_ACHIEVED''),
      (''storyEstimateCleared'', ''STORY_ESTIMATE_CLEARED''),
      (''revealed'', ''REVEALED''),
      (''newEstimationRoundStarted'', ''NEW_ESTIMATION_ROUND_STARTED''),
      (''excludedFromEstimations'', ''EXCLUDED_FROM_ESTM''),
      (''includedInEstimations'', ''INCLUDED_IN_ESTM''),
      (''storyChanged'', ''STORY_CHANGED''),
      (''storyDeleted'', ''STORY_DELETED''),
      (''storyTrashed'', ''STORY_TRASHED''),
      (''storyRestored'', ''STORY_RESTORED''),
      (''cardConfigSet'', ''CARD_CONFIG_SET''),
      (''autoRevealOn'', ''AUTO_REVEAL_ON''),
      (''autoRevealOff'', ''AUTO_REVEAL_OFF''),
      (''passwordSet'', ''PASSWORD_SET''),
      (''passwordCleared'', ''PASSWORD_CLEARED''),
      (''tokenIssued'', ''TOKEN_ISSUED'')]"

text \<open>
  \<open>eventActionHandlers\<close>, in the order of the source. The key of each entry is
  \<open>EVENT_ACTION_TYPES.name\<close>, written out.
\<close>

definition eventActionHandlers :: "env \<Rightarrow> (string \<times> handler) list" where
  "eventActionHandlers env =
     [(''ROOM_CREATED'', \<lparr>h_fn = roomCreated_fn, h_log = LogFunction roomCreated_log\<rparr>),
      (''JOINED_ROOM'', \<lparr>h_fn = joinedRoom_fn env, h_log = LogFunction joinedRoom_log\<rparr>),
      (''LEFT_ROOM'', \<lparr>h_fn = leftRoom_fn env, h_log = LogFunction leftRoom_log\<rparr>),
      (''KICKED'', \<lparr>h_fn = kicked_fn env, h_log = LogFunction kicked_log\<rparr>),
      (''CONNECTION_LOST'',
         \<lparr>h_fn = connectionLost_fn, h_log = LogFunction connectionLost_log\<rparr>),
      (''STORY_ADDED'', \<lparr>h_fn = storyAdded_fn, h_log = LogFunction storyAdded_log\<rparr>),
      (''STORY_CHANGED'', \<lparr>h_fn = storyChanged_fn, h_log = LogFunction storyChanged_log\<rparr>),
      (''STORY_TRASHED'', \<lparr>h_fn = storyTrashed_fn, h_log = LogFunction storyTrashed_log\<rparr>),
      (''STORY_RESTORED'',
         \<lparr>h_fn = storyRestored_fn, h_log = LogFunction storyRestored_log\<rparr>),
      (''STORY_DELETED'',
         \<lparr>h_fn = storyDeleted_fn, h_log = LogFunction (storyDeleted_log env)\<rparr>),
      (''STORY_SELECTED'',
         \<lparr>h_fn = storySelected_fn, h_log = LogFunction storySelected_log\<rparr>),
      (''IMPORT_FAILED'', \<lparr>h_fn = importFailed_fn, h_log = LogFunction importFailed_log\<rparr>),
      (''USERNAME_SET'', \<lparr>h_fn = usernameSet_fn, h_log = LogFunction usernameSet_log\<rparr>),
      (''EMAIL_SET'', \<lparr>h_fn = emailSet_fn, h_log = LogFunction emailSet_log\<rparr>),
      (''AVATAR_SET'', \<lparr>h_fn = avatarSet_fn, h_log = LogFunction avatarSet_log\<rparr>),
      (''EXCLUDED_FROM_ESTM'',
         \<lparr>h_fn = excludedFromEstimations_fn,
          h_log = LogFunction excludedFromEstimations_log\<rparr>),
      (''INCLUDED_IN_ESTM'',
         \<lparr>h_fn = includedInEstimations_fn,
          h_log = LogFunction includedInEstimations_log\<rparr>),
      (''STORY_ESTIMATE_GIVEN'', \<lparr>h_fn = storyEstimateGiven_fn, h_log = LogAbsent\<rparr>),
      (''CONSENSUS_ACHIEVED'',
         \<lparr>h_fn = consensusAchieved_fn, h_log = LogFunction (consensusAchieved_log env)\<rparr>),
      (''STORY_ESTIMATE_CLEARED'', \<lparr>h_fn = storyEstimateCleared_fn, h_log = LogAbsent\<rparr>),
      (''REVEALED'', \<lparr>h_fn = revealed_fn, h_log = LogFunction revealed_log\<rparr>),
      (''NEW_ESTIMATION_ROUND_STARTED'',
         \<lparr>h_fn = newEstimationRoundStarted_fn,
          h_log = LogFunction newEstimationRoundStarted_log\<rparr>),
      (''CARD_CONFIG_SET'',
         \<lparr>h_fn = cardConfigSet_fn, h_log = LogFunction cardConfigSet_log\<rparr>),
      (''AUTO_REVEAL_ON'', \<lparr>h_fn = autoRevealOn_fn, h_log = LogFunction autoRevealOn_log\<rparr>),
      (''AUTO_REVEAL_OFF'',
         \<lparr>h_fn = autoRevealOff_fn, h_log = LogFunction autoRevealOff_log\<rparr>),
      (''PASSWORD_SET'', \<lparr>h_fn = passwordSet_fn, h_log = LogFunction passwordSet_log\<rparr>),
      (''PASSWORD_CLEARED'',
         \<lparr>h_fn = passwordCleared_fn, h_log = LogFunction passwordCleared_log\<rparr>),
      (''TOKEN_ISSUED'', \<lparr>h_fn = tokenIssued_fn, h_log = LogAbsent\<rparr>),
      (''COMMAND_REJECTED'',
         \<lparr>h_fn = commandRejected_fn, h_log = LogFunction commandRejected_log\<rparr>)]"

subsection \<open>The store of state objects\<close>

text \<open>
  A reference is an address in the store. The addresses below \<open>nextRef\<close> are in use; an
  object literal takes the next one. What \<open>objs\<close> holds from \<open>nextRef\<close> on is of no
  account: no reference points there yet.
\<close>

type_synonym ref = nat

record store =
  objs :: "ref \<Rightarrow> state"
  nextRef :: ref

definition allocate :: "state \<Rightarrow> store \<Rightarrow> ref \<times> store" where
  "allocate c st =
     (nextRef st, st\<lparr>objs := (objs st)(nextRef st := c), nextRef := Suc (nextRef st)\<rparr>)"

text \<open>\<open>state.roomId = v\<close>: a write into the object at \<open>r\<close>.\<close>

definition assignRoomId :: "ref \<Rightarrow> string option \<Rightarrow> store \<Rightarrow> store" where
  "assignRoomId r v st = st\<lparr>objs := (objs st)(r := (objs st r)\<lparr>roomId := v\<rparr>)\<rparr>"

text \<open>
  What a call of the reducer leaves behind: the reference it returns or the exception it
  throws, the store after the call, and the calls it made to the outside.
\<close>

record outcome =
  returned :: "exn + ref"
  storeAfter :: store
  trace :: "effect list"

subsection \<open>updateActionLog\<close>

definition truthyLog :: "logDescriptor \<Rightarrow> bool" where
  "truthyLog logObject =
     (case logObject of LogAbsent \<Rightarrow> False | LogString s \<Rightarrow> s \<noteq> [] | LogFunction f \<Rightarrow> True)"

definition truthyMessage :: "messageObject \<Rightarrow> bool" where
  "truthyMessage m =
     (case m of Undefined \<Rightarrow> False | Message s \<Rightarrow> s \<noteq> [] | MessageObject ms e \<Rightarrow> True)"

definition newLogItem :: "env \<Rightarrow> messageObject \<Rightarrow> logItem" where
  "newLogItem env messageObject =
     (case messageObject of
        MessageObject ms e \<Rightarrow>
          \<lparr>tstamp = formattedNow env, logId = freshUuid env, message = ms, isError = e\<rparr>
      | Message s \<Rightarrow>
          \<lparr>tstamp = formattedNow env, logId = freshUuid env, message = Some s, isError = None\<rparr>
      | Undefined \<Rightarrow>
          \<lparr>tstamp = formattedNow env, logId = freshUuid env, message = None, isError = None\<rparr>)"

text \<open>
  The result is \<open>None\<close> when the function returns its \<open>modifiedState\<close> parameter itself,
  and the contents of the object literal otherwise.
\<close>

definition updateActionLog ::
  "env \<Rightarrow> logDescriptor \<Rightarrow> state \<Rightarrow> state \<Rightarrow> event \<Rightarrow> exn + state option" where
  "updateActionLog env logObject oldState modifiedState event =
     (if \<not> truthyLog logObject then Inr None
      else
        let matchingUser =
              (case users modifiedState of
                 None \<Rightarrow> None
               | Some m \<Rightarrow> held (m (propKey (e_userId event))));
            username =
              (case matchingUser of None \<Rightarrow> [] | Some u \<Rightarrow> str (orElse (u_username u) (Some [])));
            messageObject =
              (case logObject of
                 LogFunction f \<Rightarrow> f username (e_payload event) oldState modifiedState event
               | LogString s \<Rightarrow> Inr (Message s)
               | LogAbsent \<Rightarrow> Inr Undefined)
        in bindE messageObject (\<lambda>m.
             if \<not> truthyMessage m then Inr None
             else Inr (Some (modifiedState\<lparr>actionLog :=
                    Some (newLogItem env m
                          # (case actionLog modifiedState of None \<Rightarrow> [] | Some l \<Rightarrow> l))\<rparr>))))"

subsection \<open>eventReducer\<close>

definition isFailedJoinRoom :: "event \<Rightarrow> bool" where
  "isFailedJoinRoom event =
     (e_name event = Some ''commandRejected''
      \<and> (case e_payload event of
           None \<Rightarrow> False
         | Some p \<Rightarrow>
             (case p_command p of None \<Rightarrow> False | Some c \<Rightarrow> cmd_name c = Some ''joinRoom'')))"

text \<open>
  The first block of the reducer, on a rejected \<open>joinRoom\<close> command: it throws (the reason
  is \<open>undefined\<close>), returns an object literal, or falls through to the rest.
\<close>

datatype failedJoin = Throws | Returns "effect list" state | FallsThrough

definition onFailedJoinRoom :: "state \<Rightarrow> event \<Rightarrow> failedJoin" where
  "onFailedJoinRoom state event =
     (if isFailedJoinRoom event then
        (case e_payload event of
           None \<Rightarrow> Throws
         | Some p \<Rightarrow>
             (case p_reason p of
                None \<Rightarrow> Throws
              | Some reason \<Rightarrow>
                  if str_includes reason ''validation Error'' \<and> str_includes reason ''/username''
                  then Returns [SetPresetUsername (Some [])] (state\<lparr>presetUsername := Some []\<rparr>)
                  else if str_includes reason ''Not Authorized''
                  then (case p_command p of
                          None \<Rightarrow> Throws
                        | Some c \<Rightarrow> Returns [] (state\<lparr>authorizationFailed := cmd_roomId c\<rparr>))
                  else FallsThrough))
      else FallsThrough)"

text \<open>
  The last three lines of the reducer: the transition function, \<open>|| state\<close>, and the log.
\<close>

definition applyHandler :: "env \<Rightarrow> handler \<Rightarrow> event \<Rightarrow> ref \<Rightarrow> store \<Rightarrow> outcome" where
  "applyHandler env matchingHandler event r st =
     (case h_fn matchingHandler (objs st r) (e_payload event) event of
        (effs, Inl e) \<Rightarrow> \<lparr>returned = Inl e, storeAfter = st, trace = effs\<rparr>
      | (effs, Inr v) \<Rightarrow>
          (let (modifiedState, st2) =
                 (case v of NewObject c \<Rightarrow> allocate c st | TheState \<Rightarrow> (r, st) | Falsy \<Rightarrow> (r, st))
           in case updateActionLog env (h_log matchingHandler)
                     (objs st2 r) (objs st2 modifiedState) event of
                Inl e \<Rightarrow> \<lparr>returned = Inl e, storeAfter = st2, trace = effs\<rparr>
              | Inr None \<Rightarrow> \<lparr>returned = Inr modifiedState, storeAfter = st2, trace = effs\<rparr>
              | Inr (Some c) \<Rightarrow>
                  (let (r', st3) = allocate c st2
                   in \<lparr>returned = Inr r', storeAfter = st3, trace = effs\<rparr>)))"

text \<open>
  \<open>eventActionHandlers[action.type]\<close> reads an entry of the table or, for a name the
  table does not have, a property that every object inherits from \<open>Object.prototype\<close>.
  Such a property is truthy and has no \<open>fn\<close>, so the call of \<open>matchingHandler.fn\<close>
  throws.
\<close>

definition objectPrototypeProperties :: "string list" where
  "objectPrototypeProperties =
     [''constructor'', ''hasOwnProperty'', ''isPrototypeOf'', ''propertyIsEnumerable'',
      ''toLocaleString'', ''toString'', ''valueOf'', ''__proto__'', ''__defineGetter__'',
      ''__defineSetter__'', ''__lookupGetter__'', ''__lookupSetter__'']"

datatype matching = NoHandler | Inherited | Matching handler

definition lookupHandler :: "(string \<rightharpoonup> handler) \<Rightarrow> string \<Rightarrow> matching" where
  "lookupHandler handlers type =
     (case handlers type of
        Some h \<Rightarrow> Matching h
      | None \<Rightarrow> if type \<in> set objectPrototypeProperties then Inherited else NoHandler)"

text \<open>
  The reducer over any table of handlers; \<open>r\<close> is the reference passed as \<open>state\<close>.
\<close>

definition reduceWith ::
  "(string \<rightharpoonup> handler) \<Rightarrow> env \<Rightarrow> ref \<Rightarrow> action \<Rightarrow> store \<Rightarrow> outcome" where
  "reduceWith handlers env r action st =
     (let event = a_event action in
      case onFailedJoinRoom (objs st r) event of
        Throws \<Rightarrow> \<lparr>returned = Inl TypeError, storeAfter = st, trace = []\<rparr>
      | Returns effs c \<Rightarrow>
          (let (r', st') = allocate c st
           in \<lparr>returned = Inr r', storeAfter = st', trace = effs\<rparr>)
      | FallsThrough \<Rightarrow>
          (let st1 = (if \<not> truthy (roomId (objs st r)) \<and> e_name event = Some ''joinedRoom''
                      then assignRoomId r (e_roomId event) st else st)
           in if roomId (objs st1 r) \<noteq> e_roomId event
              then \<lparr>returned = Inr r, storeAfter = st1,
                    trace = [WarnDifferentRoom (roomId (objs st1 r)) (e_roomId event)
                               (e_name event)]\<rparr>
              else (case lookupHandler handlers (a_type action) of
                      NoHandler \<Rightarrow>
                        \<lparr>returned = Inr r, storeAfter = st1, trace = [WarnNoHandler action]\<rparr>
                    | Inherited \<Rightarrow> \<lparr>returned = Inl TypeError, storeAfter = st1, trace = []\<rparr>
                    | Matching matchingHandler \<Rightarrow>
                        applyHandler env matchingHandler event r st1)))"

definition eventReducer :: "env \<Rightarrow> ref \<Rightarrow> action \<Rightarrow> store \<Rightarrow> outcome" where
  "eventReducer env = reduceWith (map_of (eventActionHandlers env)) env"

text \<open>The state that a call returns, when it returns one.\<close>

definition resultState :: "outcome \<Rightarrow> state option" where
  "resultState out =
     (case returned out of Inl e \<Rightarrow> None | Inr r \<Rightarrow> Some (objs (storeAfter out) r))"

text \<open>
  An event of a given name, as the client dispatches it: the action type is the entry of
  \<open>EVENT_ACTION_TYPES\<close> for the name of the event.
\<close>

definition isEvent :: "string \<Rightarrow> action \<Rightarrow> bool" where
  "isEvent name action =
     (e_name (a_event action) = Some name
      \<and> map_of EVENT_ACTION_TYPES name = Some (a_type action))"

text \<open>
  The event passes the room check of the reducer: the rooms agree, or the state has no
  room yet and the event is \<open>joinedRoom\<close>, which makes the reducer adopt the room of the
  event.
\<close>

definition adoptsRoom :: "state \<Rightarrow> event \<Rightarrow> bool" where
  "adoptsRoom state event = (\<not> truthy (roomId state) \<and> e_name event = Some ''joinedRoom'')"

definition inScope :: "state \<Rightarrow> event \<Rightarrow> bool" where
  "inScope state event = (adoptsRoom state event \<or> roomId state = e_roomId event)"

subsection \<open>A session, for the examples\<close>

text \<open>
  An initial state with an empty log, indexers that key every entry by its id, a card
  lookup that finds nothing, a fixed clock and a fixed identifier.
\<close>

definition emptyState :: state where
  "emptyState = \<lparr>roomId = None, userId = None, users = None, stories = None,
     estimations = None, selectedStory = None, highlightedStory = None, cardConfig = None,
     autoReveal = None, passwordProtected = None, applause = None, actionLog = Some [],
     pendingJoinCommandId = None, authorizationFailed = None, unseenError = None,
     userToken = None, presetUsername = None, presetEmail = None, presetAvatar = None\<rparr>"

definition emptyPayload :: payload where
  "emptyPayload = \<lparr>p_id = None, p_selectedStory = None, p_users = None, p_stories = None,
     p_cardConfig = None, p_autoReveal = None, p_passwordProtected = None, p_userId = None,
     p_storyId = None, p_title = None, p_description = None, p_createdAt = None,
     p_message = None, p_username = None, p_email = None, p_emailHash = None,
     p_avatar = None, p_value = None, p_manually = None, p_token = None, p_command = None,
     p_reason = None\<rparr>"

definition exampleEnv :: env where
  "exampleEnv = \<lparr>
     initialState = emptyState,
     indexUsers = (\<lambda>l. map_of (map (\<lambda>u. (str (u_id u), Some u))
                       (case l of None \<Rightarrow> [] | Some us \<Rightarrow> us))),
     indexStories = (\<lambda>l. map_of (map (\<lambda>s. (str (s_id s), Some (story.truncate s)))
                       (case l of None \<Rightarrow> [] | Some ss \<Rightarrow> ss))),
     indexEstimations = (\<lambda>l. map_of (map (\<lambda>s. (str (s_id s), s_estimations s))
                       (case l of None \<Rightarrow> [] | Some ss \<Rightarrow> ss))),
     getCardConfigForValue = (\<lambda>cards v. None),
     formattedNow = ''12:00:00'',
     freshUuid = ''log-1'',
     numberToString = (\<lambda>n. ''5'')\<rparr>"

definition anna :: user where
  "anna = emptyUser\<lparr>u_id := Some ''u1'', u_username := Some ''Anna''\<rparr>"

definition ben :: user where
  "ben = emptyUser\<lparr>u_id := Some ''u2'', u_username := Some ''Ben''\<rparr>"

definition carl :: user where
  "carl = emptyUser\<lparr>u_id := Some ''u3''\<rparr>"

definition featureX :: story where
  "featureX = emptyStory\<lparr>s_id := Some ''s1'', s_title := Some ''Feature X'',
     s_revealed := Some True, s_consensus := Some (Some 5)\<rparr>"

text \<open>Anna's client in room \<open>r1\<close>, with Ben, after a round on the story \<open>s1\<close>.\<close>

definition annaInRoom :: state where
  "annaInRoom = emptyState\<lparr>
     roomId := Some ''r1'',
     userId := Some ''u1'',
     users := Some [''u1'' \<mapsto> Some anna, ''u2'' \<mapsto> Some ben],
     stories := Some [''s1'' \<mapsto> Some featureX],
     estimations := Some [''s1'' \<mapsto> Some [''u1'' \<mapsto> Some 5, ''u2'' \<mapsto> Some 5]],
     selectedStory := Some ''s1''\<rparr>"

text \<open>Anna's client before it is in a room, waiting for the answer to its join command.\<close>

definition annaJoining :: state where
  "annaJoining = emptyState\<lparr>pendingJoinCommandId := Some ''c1''\<rparr>"

text \<open>A store whose one object, at address 0, is the given state.\<close>

definition storeOf :: "state \<Rightarrow> store" where
  "storeOf s = \<lparr>objs = (\<lambda>r. s), nextRef = 1\<rparr>"

definition snapshot :: payload where
  "snapshot = emptyPayload\<lparr>p_selectedStory := Some ''s1'', p_users := Some [anna, ben],
     p_stories := Some [], p_autoReveal := Some True\<rparr>"

definition annaJoined :: action where
  "annaJoined = \<lparr>a_type = ''JOINED_ROOM'',
     a_event = \<lparr>e_name = Some ''joinedRoom'', e_roomId = Some ''r1'', e_userId = Some ''u1'',
       e_correlationId = Some ''c1'', e_payload = Some snapshot\<rparr>\<rparr>"

definition carlJoined :: action where
  "carlJoined = \<lparr>a_type = ''JOINED_ROOM'',
     a_event = \<lparr>e_name = Some ''joinedRoom'', e_roomId = Some ''r1'', e_userId = Some ''u3'',
       e_correlationId = None,
       e_payload = Some (emptyPayload\<lparr>p_users := Some [anna, ben, carl]\<rparr>)\<rparr>\<rparr>"

definition annaLeft :: action where
  "annaLeft = \<lparr>a_type = ''LEFT_ROOM'',
     a_event = \<lparr>e_name = Some ''leftRoom'', e_roomId = Some ''r1'', e_userId = Some ''u1'',
       e_correlationId = None, e_payload = Some emptyPayload\<rparr>\<rparr>"

definition annaKicked :: action where
  "annaKicked = \<lparr>a_type = ''KICKED'',
     a_event = \<lparr>e_name = Some ''kicked'', e_roomId = Some ''r1'', e_userId = Some ''u2'',
       e_correlationId = None,
       e_payload = Some (emptyPayload\<lparr>p_userId := Some ''u1''\<rparr>)\<rparr>\<rparr>"

definition newRound :: action where
  "newRound = \<lparr>a_type = ''NEW_ESTIMATION_ROUND_STARTED'',
     a_event = \<lparr>e_name = Some ''newEstimationRoundStarted'', e_roomId = Some ''r1'',
       e_userId = Some ''u2'', e_correlationId = None,
       e_payload = Some (emptyPayload\<lparr>p_storyId := Some ''s1''\<rparr>)\<rparr>\<rparr>"

definition roomCreatedEvent :: action where
  "roomCreatedEvent = \<lparr>a_type = ''ROOM_CREATED'',
     a_event = \<lparr>e_name = Some ''roomCreated'', e_roomId = Some ''r1'', e_userId = Some ''u1'',
       e_correlationId = None,
       e_payload = Some (emptyPayload\<lparr>p_id := Some ''r1''\<rparr>)\<rparr>\<rparr>"

definition importFailedEvent :: action where
  "importFailedEvent = \<lparr>a_type = ''IMPORT_FAILED'',
     a_event = \<lparr>e_name = Some ''importFailed'', e_roomId = Some ''r1'', e_userId = Some ''u1'',
       e_correlationId = None,
       e_payload = Some (emptyPayload\<lparr>p_message := Some ''no header''\<rparr>)\<rparr>\<rparr>"

definition benEstimated :: action where
  "benEstimated = \<lparr>a_type = ''STORY_ESTIMATE_GIVEN'',
     a_event = \<lparr>e_name = Some ''storyEstimateGiven'', e_roomId = Some ''r1'',
       e_userId = Some ''u2'', e_correlationId = None,
       e_payload = Some (emptyPayload\<lparr>p_storyId := Some ''s1'', p_value := Some 8\<rparr>)\<rparr>\<rparr>"

definition benCleared :: action where
  "benCleared = \<lparr>a_type = ''STORY_ESTIMATE_CLEARED'',
     a_event = \<lparr>e_name = Some ''storyEstimateCleared'', e_roomId = Some ''r1'',
       e_userId = Some ''u2'', e_correlationId = None,
       e_payload = Some (emptyPayload\<lparr>p_storyId := Some ''s1''\<rparr>)\<rparr>\<rparr>"

text \<open>The server rejects a join of the room \<open>r2\<close>, which has a password.\<close>

definition joinOfR2 :: command where
  "joinOfR2 = \<lparr>cmd_name = Some ''joinRoom'', cmd_roomId = Some ''r2''\<rparr>"

definition rejection :: payload where
  "rejection = emptyPayload\<lparr>p_command := Some joinOfR2,
     p_reason := Some ''Precondition Error during joinRoom: Not Authorized!''\<rparr>"

definition joinRejected :: action where
  "joinRejected = \<lparr>a_type = ''COMMAND_REJECTED'',
     a_event = \<lparr>e_name = Some ''commandRejected'', e_roomId = Some ''r2'',
       e_userId = Some ''u1'', e_correlationId = Some ''c1'',
       e_payload = Some rejection\<rparr>\<rparr>"

text \<open>An event of the room \<open>r2\<close>, and an action whose type has no handler.\<close>

definition storyAddedElsewhere :: action where
  "storyAddedElsewhere = \<lparr>a_type = ''STORY_ADDED'',
     a_event = \<lparr>e_name = Some ''storyAdded'', e_roomId = Some ''r2'', e_userId = Some ''u9'',
       e_correlationId = None,
       e_payload = Some (emptyPayload\<lparr>p_storyId := Some ''s7'', p_title := Some ''Other''\<rparr>)\<rparr>\<rparr>"

definition moderatorSet :: action where
  "moderatorSet = \<lparr>a_type = ''MODERATOR_SET'',
     a_event = \<lparr>e_name = Some ''moderatorSet'', e_roomId = Some ''r1'', e_userId = Some ''u1'',
       e_correlationId = None, e_payload = Some emptyPayload\<rparr>\<rparr>"

text \<open>
  Two actions without an entry in the table of handlers, both with an event of the room
  \<open>r1\<close>: one whose type is a name that every object inherits, and one whose event is
  the rejection of a join.
\<close>

definition inheritedType :: action where
  "inheritedType = \<lparr>a_type = ''toString'',
     a_event = \<lparr>e_name = Some ''toString'', e_roomId = Some ''r1'', e_userId = Some ''u1'',
       e_correlationId = None, e_payload = Some emptyPayload\<rparr>\<rparr>"

definition untypedRejection :: action where
  "untypedRejection = \<lparr>a_type = ''JOIN_REJECTED'',
     a_event = \<lparr>e_name = Some ''commandRejected'', e_roomId = Some ''r1'',
       e_userId = Some ''u1'', e_correlationId = Some ''c1'',
       e_payload = Some rejection\<rparr>\<rparr>"

text \<open>Anna's client after a new round on the story \<open>s1\<close>, started by Ben.\<close>

definition afterNewRound :: state where
  "afterNewRound = annaInRoom\<lparr>
     applause := Some False,
     stories := Some [''s1'' \<mapsto>
       Some (featureX\<lparr>s_revealed := Some False, s_consensus := Some None\<rparr>)],
     estimations := Some [''s1'' \<mapsto> None],
     actionLog := Some [\<lparr>tstamp = ''12:00:00'', logId = ''log-1'',
       message = Some (''Ben started a new estimation round for story ''
                       @ quoted ''Feature X''),
       isError = None\<rparr>]\<rparr>"

text \<open>A table with one handler, whose transition function returns \<open>undefined\<close>.\<close>

definition pingTable :: "string \<rightharpoonup> handler" where
  "pingTable = [''PING'' \<mapsto> \<lparr>h_fn = (\<lambda>state payload event. ([], Inr Falsy)),
                             h_log = LogString ''ping''\<rparr>]"

definition ping :: action where
  "ping = \<lparr>a_type = ''PING'',
     a_event = \<lparr>e_name = Some ''ping'', e_roomId = Some ''r1'', e_userId = Some ''u1'',
       e_correlationId = None, e_payload = None\<rparr>\<rparr>"

section \<open>How a call of the reducer runs\<close>

subsection \<open>The store\<close>

lemma allocate_simps:
  "fst (allocate c st) = nextRef st"
  "objs (snd (allocate c st)) = (objs st)(nextRef st := c)"
  "nextRef (snd (allocate c st)) = Suc (nextRef st)"
  by (simp_all add: allocate_def)

lemma assignRoomId_same: "roomId (objs st r) = v \<Longrightarrow> assignRoomId r v st = st"
  by (auto simp: assignRoomId_def)

subsection \<open>The tables\<close>

lemma isEvent_iff:
  "isEvent ''roomCreated'' a \<longleftrightarrow>
     e_name (a_event a) = Some ''roomCreated'' \<and> a_type a = ''ROOM_CREATED''"
  "isEvent ''importFailed'' a \<longleftrightarrow>
     e_name (a_event a) = Some ''importFailed'' \<and> a_type a = ''IMPORT_FAILED''"
  "isEvent ''joinedRoom'' a \<longleftrightarrow>
     e_name (a_event a) = Some ''joinedRoom'' \<and> a_type a = ''JOINED_ROOM''"
  "isEvent ''leftRoom'' a \<longleftrightarrow>
     e_name (a_event a) = Some ''leftRoom'' \<and> a_type a = ''LEFT_ROOM''"
  "isEvent ''kicked'' a \<longleftrightarrow>
     e_name (a_event a) = Some ''kicked'' \<and> a_type a = ''KICKED''"
  "isEvent ''storyEstimateGiven'' a \<longleftrightarrow>
     e_name (a_event a) = Some ''storyEstimateGiven'' \<and> a_type a = ''STORY_ESTIMATE_GIVEN''"
  "isEvent ''storyEstimateCleared'' a \<longleftrightarrow>
     e_name (a_event a) = Some ''storyEstimateCleared'' \<and> a_type a = ''STORY_ESTIMATE_CLEARED''"
  "isEvent ''newEstimationRoundStarted'' a \<longleftrightarrow>
     e_name (a_event a) = Some ''newEstimationRoundStarted''
     \<and> a_type a = ''NEW_ESTIMATION_ROUND_STARTED''"
  by (auto simp: isEvent_def EVENT_ACTION_TYPES_def)

lemma handler_of:
  "map_of (eventActionHandlers env) ''ROOM_CREATED''
     = Some \<lparr>h_fn = roomCreated_fn, h_log = LogFunction roomCreated_log\<rparr>"
  "map_of (eventActionHandlers env) ''IMPORT_FAILED''
     = Some \<lparr>h_fn = importFailed_fn, h_log = LogFunction importFailed_log\<rparr>"
  "map_of (eventActionHandlers env) ''JOINED_ROOM''
     = Some \<lparr>h_fn = joinedRoom_fn env, h_log = LogFunction joinedRoom_log\<rparr>"
  "map_of (eventActionHandlers env) ''LEFT_ROOM''
     = Some \<lparr>h_fn = leftRoom_fn env, h_log = LogFunction leftRoom_log\<rparr>"
  "map_of (eventActionHandlers env) ''KICKED''
     = Some \<lparr>h_fn = kicked_fn env, h_log = LogFunction kicked_log\<rparr>"
  "map_of (eventActionHandlers env) ''STORY_ESTIMATE_GIVEN''
     = Some \<lparr>h_fn = storyEstimateGiven_fn, h_log = LogAbsent\<rparr>"
  "map_of (eventActionHandlers env) ''STORY_ESTIMATE_CLEARED''
     = Some \<lparr>h_fn = storyEstimateCleared_fn, h_log = LogAbsent\<rparr>"
  "map_of (eventActionHandlers env) ''NEW_ESTIMATION_ROUND_STARTED''
     = Some \<lparr>h_fn = newEstimationRoundStarted_fn,
             h_log = LogFunction newEstimationRoundStarted_log\<rparr>"
  by (simp_all add: eventActionHandlers_def)

subsection \<open>The paths through the reducer\<close>

lemma not_rejected_falls_through:
  "\<not> isFailedJoinRoom e \<Longrightarrow> onFailedJoinRoom s e = FallsThrough"
  by (simp add: onFailedJoinRoom_def)

lemma other_name_not_failed_join:
  "e_name e \<noteq> Some ''commandRejected'' \<Longrightarrow> \<not> isFailedJoinRoom e"
  by (simp add: isFailedJoinRoom_def)

lemma reduceWith_dispatch:
  assumes "onFailedJoinRoom (objs st r) (a_event a) = FallsThrough"
      and "inScope (objs st r) (a_event a)"
      and "handlers (a_type a) = Some h"
  shows "reduceWith handlers env r a st =
           applyHandler env h (a_event a) r
             (if adoptsRoom (objs st r) (a_event a)
              then assignRoomId r (e_roomId (a_event a)) st else st)"
  using assms
  by (auto simp: reduceWith_def lookupHandler_def inScope_def adoptsRoom_def assignRoomId_def
      Let_def)

lemma reduceWith_in_room:
  assumes "onFailedJoinRoom (objs st r) (a_event a) = FallsThrough"
      and "roomId (objs st r) = e_roomId (a_event a)"
      and "handlers (a_type a) = Some h"
  shows "reduceWith handlers env r a st = applyHandler env h (a_event a) r st"
  using assms
  by (simp add: reduceWith_dispatch inScope_def assignRoomId_same)

lemma reduceWith_no_handler:
  assumes "onFailedJoinRoom (objs st r) (a_event a) = FallsThrough"
      and "roomId (objs st r) = e_roomId (a_event a)"
      and "lookupHandler handlers (a_type a) = NoHandler"
  shows "reduceWith handlers env r a st =
           \<lparr>returned = Inr r, storeAfter = st, trace = [WarnNoHandler a]\<rparr>"
  using assms
  by (simp add: reduceWith_def assignRoomId_same Let_def)

lemma reduceWith_inherited:
  assumes "onFailedJoinRoom (objs st r) (a_event a) = FallsThrough"
      and "roomId (objs st r) = e_roomId (a_event a)"
      and "lookupHandler handlers (a_type a) = Inherited"
  shows "returned (reduceWith handlers env r a st) = Inl TypeError"
  using assms
  by (simp add: reduceWith_def assignRoomId_same Let_def)

lemma reduceWith_other_room:
  assumes "onFailedJoinRoom (objs st r) (a_event a) = FallsThrough"
      and "roomId (objs st r) \<noteq> e_roomId (a_event a)"
      and "\<not> adoptsRoom (objs st r) (a_event a)"
  shows "reduceWith handlers env r a st =
           \<lparr>returned = Inr r, storeAfter = st,
            trace = [WarnDifferentRoom (roomId (objs st r)) (e_roomId (a_event a))
                       (e_name (a_event a))]\<rparr>"
  using assms
  by (auto simp: reduceWith_def adoptsRoom_def Let_def)

subsection \<open>The handler and the log\<close>

lemma applyHandler_new:
  assumes "h_fn h (objs st r) (e_payload e) e = (effs, Inr (NewObject c))"
      and "r < nextRef st"
  shows "applyHandler env h e r st =
     (case updateActionLog env (h_log h) (objs st r) c e of
        Inl x \<Rightarrow> \<lparr>returned = Inl x, storeAfter = snd (allocate c st), trace = effs\<rparr>
      | Inr None \<Rightarrow>
          \<lparr>returned = Inr (nextRef st), storeAfter = snd (allocate c st), trace = effs\<rparr>
      | Inr (Some c') \<Rightarrow>
          \<lparr>returned = Inr (Suc (nextRef st)),
           storeAfter = snd (allocate c' (snd (allocate c st))), trace = effs\<rparr>)"
  using assms
  by (auto simp: applyHandler_def allocate_def Let_def split: sum.splits option.splits)

lemma applyHandler_same:
  assumes "h_fn h (objs st r) (e_payload e) e = (effs, Inr v)"
      and "v = TheState \<or> v = Falsy"
  shows "applyHandler env h e r st =
     (case updateActionLog env (h_log h) (objs st r) (objs st r) e of
        Inl x \<Rightarrow> \<lparr>returned = Inl x, storeAfter = st, trace = effs\<rparr>
      | Inr None \<Rightarrow> \<lparr>returned = Inr r, storeAfter = st, trace = effs\<rparr>
      | Inr (Some c') \<Rightarrow>
          \<lparr>returned = Inr (nextRef st), storeAfter = snd (allocate c' st), trace = effs\<rparr>)"
  using assms
  by (auto simp: applyHandler_def allocate_def Let_def split: sum.splits option.splits)

lemma applyHandler_unlogged:
  assumes "h_log h = LogAbsent" and "r < nextRef st"
  shows "applyHandler env h e r st =
     (case h_fn h (objs st r) (e_payload e) e of
        (effs, Inl x) \<Rightarrow> \<lparr>returned = Inl x, storeAfter = st, trace = effs\<rparr>
      | (effs, Inr (NewObject c)) \<Rightarrow>
          \<lparr>returned = Inr (nextRef st), storeAfter = snd (allocate c st), trace = effs\<rparr>
      | (effs, Inr v) \<Rightarrow> \<lparr>returned = Inr r, storeAfter = st, trace = effs\<rparr>)"
  using assms
  by (auto simp: applyHandler_def updateActionLog_def truthyLog_def allocate_def
      split: prod.splits sum.splits fnResult.splits)

lemma updateActionLog_frame:
  "updateActionLog env l old new e = Inr (Some c) \<Longrightarrow> c = new\<lparr>actionLog := actionLog c\<rparr>"
  by (auto simp: updateActionLog_def bindE_def Let_def split: if_splits sum.splits)

lemma updateActionLog_keeps:
  assumes "updateActionLog env l old new e = Inr (Some c)"
  shows "stories c = stories new" and "estimations c = estimations new"
  using assms
  by (auto simp: updateActionLog_def bindE_def Let_def split: if_splits sum.splits)

lemma updateActionLog_message:
  assumes "\<And>username. f username (e_payload e) old new e = Inr (Message msg)"
      and "msg \<noteq> []"
  shows "updateActionLog env (LogFunction f) old new e =
     Inr (Some (new\<lparr>actionLog := Some
       (\<lparr>tstamp = formattedNow env, logId = freshUuid env, message = Some msg, isError = None\<rparr>
        # (case actionLog new of None \<Rightarrow> [] | Some l \<Rightarrow> l))\<rparr>))"
  using assms
  by (simp add: updateActionLog_def truthyLog_def truthyMessage_def newLogItem_def bindE_def
      Let_def)

subsection \<open>What a call does to the object it is given\<close>

lemma applyHandler_keeps:
  "r' < nextRef st \<Longrightarrow> objs (storeAfter (applyHandler env h e r st)) r' = objs st r'"
  by (auto simp: applyHandler_def allocate_def Let_def
      split: prod.splits sum.splits option.splits fnResult.splits)

lemma reduceWith_keeps_input:
  assumes "r < nextRef st"
      and "\<not> adoptsRoom (objs st r) (a_event a) \<or> roomId (objs st r) = e_roomId (a_event a)"
  shows "objs (storeAfter (reduceWith handlers env r a st)) r = objs st r"
proof (cases "onFailedJoinRoom (objs st r) (a_event a)")
  case Throws
  then show ?thesis
    by (simp add: reduceWith_def)
next
  case (Returns effs c)
  then show ?thesis
    using assms(1) by (simp add: reduceWith_def allocate_def)
next
  case FallsThrough
  have same: "assignRoomId r (e_roomId (a_event a)) st = st"
    if "\<not> truthy (roomId (objs st r))" and "e_name (a_event a) = Some ''joinedRoom''"
    using that assms(2) by (simp add: adoptsRoom_def assignRoomId_same)
  show ?thesis
    using assms(1)
    by (auto simp: reduceWith_def FallsThrough Let_def same applyHandler_keeps
        split: matching.splits)
qed

lemma reduceWith_adopts:
  assumes "r < nextRef st" and "adoptsRoom (objs st r) (a_event a)"
  shows "objs (storeAfter (reduceWith handlers env r a st)) r
           = (objs st r)\<lparr>roomId := e_roomId (a_event a)\<rparr>"
proof -
  have "\<not> isFailedJoinRoom (a_event a)"
    using assms(2) by (simp add: adoptsRoom_def isFailedJoinRoom_def)
  then have ft: "onFailedJoinRoom (objs st r) (a_event a) = FallsThrough"
    by (rule not_rejected_falls_through)
  have nr: "r < nextRef (assignRoomId r (e_roomId (a_event a)) st)"
    using assms(1) by (simp add: assignRoomId_def)
  show ?thesis
    using assms(2) nr
    by (auto simp: reduceWith_def ft Let_def adoptsRoom_def applyHandler_keeps
        split: matching.splits)
       (simp_all add: assignRoomId_def)
qed

subsection \<open>Running the examples\<close>

lemmas reducer_defs = eventReducer_def reduceWith_def lookupHandler_def applyHandler_def
  updateActionLog_def
  onFailedJoinRoom_def isFailedJoinRoom_def resultState_def allocate_def assignRoomId_def
  truthyLog_def truthyMessage_def newLogItem_def bindE_def payloadOf_def getProp_def
  getMember_def held_def hasOwnProperty_def spread_def spreadUser_def spreadStory_def
  propKey_def str_def truthy_def
  truthyB_def truthyN_def orElse_def orNewUser_def quoted_def storeOf_def Let_def

lemma storeOf_simps:
  "objs (storeOf s) r = s" "nextRef (storeOf s) = Suc 0"
  by (simp_all add: storeOf_def)

lemma exampleEnv_simps:
  "initialState exampleEnv = emptyState"
  "formattedNow exampleEnv = ''12:00:00''"
  "freshUuid exampleEnv = ''log-1''"
  by (simp_all add: exampleEnv_def)

lemma emptyState_simps:
  "roomId emptyState = None" "userId emptyState = None" "users emptyState = None"
  "actionLog emptyState = Some []" "pendingJoinCommandId emptyState = None"
  by (simp_all add: emptyState_def)

lemma annaInRoom_simps:
  "roomId annaInRoom = Some ''r1''" "userId annaInRoom = Some ''u1''"
  "users annaInRoom = Some [''u1'' \<mapsto> Some anna, ''u2'' \<mapsto> Some ben]"
  "stories annaInRoom = Some [''s1'' \<mapsto> Some featureX]"
  "actionLog annaInRoom = Some []" "pendingJoinCommandId annaInRoom = None"
  by (simp_all add: annaInRoom_def emptyState_def)

lemma annaJoining_simps:
  "roomId annaJoining = None" "userId annaJoining = None"
  "actionLog annaJoining = Some []" "pendingJoinCommandId annaJoining = Some ''c1''"
  by (simp_all add: annaJoining_def emptyState_def)

lemmas example_simps = storeOf_simps exampleEnv_simps emptyState_simps annaInRoom_simps
  annaJoining_simps

section \<open>The claims\<close>

subsection \<open>C1: a user joins\<close>

text \<open>
  C1 as stated: on a \<open>joinedRoom\<close> event whose correlation id is the pending one, the
  reducer returns the state with the user id of the event and the snapshot of the server
  merged in; on any other \<open>joinedRoom\<close> event only \<open>users\<close> changes. The second half
  fails: the handler has a log function, so \<open>actionLog\<close> changes as well. Here Carl joins
  the room of Anna's client, whose log was empty.
\<close>

theorem other_join_is_logged:
  "isEvent ''joinedRoom'' carlJoined
   \<and> roomId annaInRoom = e_roomId (a_event carlJoined)
   \<and> pendingJoinCommandId annaInRoom = None
   \<and> e_correlationId (a_event carlJoined) = None
   \<and> resultState (eventReducer exampleEnv 0 carlJoined (storeOf annaInRoom))
       = Some (annaInRoom\<lparr>
           users := Some [''u1'' \<mapsto> Some anna, ''u2'' \<mapsto> Some ben, ''u3'' \<mapsto> Some carl],
           actionLog := Some [\<lparr>tstamp = ''12:00:00'', logId = ''log-1'',
             message = Some ''New user joined'', isError = None\<rparr>]\<rparr>)
   \<and> actionLog annaInRoom = Some []"
proof -
  have users: "indexUsers exampleEnv (Some [anna, ben, carl])
                 = [''u1'' \<mapsto> Some anna, ''u2'' \<mapsto> Some ben, ''u3'' \<mapsto> Some carl]"
    by (auto simp: exampleEnv_def str_def anna_def ben_def carl_def)
  have "resultState (eventReducer exampleEnv 0 carlJoined (storeOf annaInRoom))
       = Some (annaInRoom\<lparr>
           users := Some (indexUsers exampleEnv (Some [anna, ben, carl])),
           actionLog := Some [\<lparr>tstamp = ''12:00:00'', logId = ''log-1'',
             message = Some ''New user joined'', isError = None\<rparr>]\<rparr>)"
    by (simp add: reducer_defs eventActionHandlers_def joinedRoom_fn_def joinedRoom_log_def
        carlJoined_def annaInRoom_def emptyState_def emptyPayload_def exampleEnv_def
        anna_def ben_def carl_def emptyUser_def)
  then show ?thesis
    by (simp add: users isEvent_iff carlJoined_def example_simps)
qed

text \<open>
  The transition function alone does what C1 says: it is the log that the claim leaves
  out.
\<close>

lemma joinedRoom_fn_result:
  "joinedRoom_fn env state (Some p) e =
     (if truthy (pendingJoinCommandId state) \<and> pendingJoinCommandId state = e_correlationId e
      then ([SetPresetUserId (e_userId e)],
            Inr (NewObject (state\<lparr>
              roomId := e_roomId e,
              userId := e_userId e,
              selectedStory := p_selectedStory p,
              highlightedStory := p_selectedStory p,
              users := Some (indexUsers env (p_users p)),
              stories := Some (indexStories env (p_stories p)),
              estimations := Some (indexEstimations env (p_stories p)),
              pendingJoinCommandId := None,
              authorizationFailed := None,
              cardConfig := p_cardConfig p,
              autoReveal := p_autoReveal p,
              passwordProtected := Some (truthyB (p_passwordProtected p))\<rparr>)))
      else ([], Inr (NewObject (state\<lparr>users := Some (indexUsers env (p_users p))\<rparr>))))"
  by (auto simp: joinedRoom_fn_def bindE_def payloadOf_def)

text \<open>
  C1, amended. Take a \<open>joinedRoom\<close> event with a payload that passes the room check
  (it is of the room of the state, or the state has no room yet), and, when the state
  already has a \<open>userId\<close>, let the joining user be among the indexed users of the
  payload (the log message reads the name there). If \<open>pendingJoinCommandId\<close> is set and
  equals the correlation id of the event, the reducer returns the state with \<open>roomId\<close> and
  \<open>userId\<close> of the event, \<open>selectedStory\<close> and \<open>highlightedStory\<close> of the payload,
  the indexed users, stories and estimations, \<open>cardConfig\<close>, \<open>autoReveal\<close> and
  \<open>passwordProtected\<close> of the payload, \<open>pendingJoinCommandId\<close> and
  \<open>authorizationFailed\<close> cleared, and one new entry in front of \<open>actionLog\<close>.
  Otherwise it returns the state with the indexed users, the \<open>roomId\<close> of the event (a
  change only when the state had no room) and one new entry in front of \<open>actionLog\<close>;
  every other field is the input's. The entry says \<open>You joined room\<close> when the state had
  no \<open>userId\<close>, and names the joining user otherwise. The input object is left with the
  \<open>roomId\<close> of the event.
\<close>

theorem joined_room:
  fixes env :: env and a :: action and st :: store and r :: ref and p :: payload
  defines "s \<equiv> objs st r"
      and "e \<equiv> a_event a"
  defines "entry \<equiv> \<lambda>u. \<lparr>tstamp = formattedNow env, logId = freshUuid env,
                       message = Some (if truthy (userId s)
                                       then orNewUser (u_username u) @ '' joined''
                                       else ''You joined room '' @ quoted (str (e_roomId e))),
                       isError = None\<rparr>
                     # (case actionLog s of None \<Rightarrow> [] | Some l \<Rightarrow> l)"
  assumes "isEvent ''joinedRoom'' a"
      and "inScope s e"
      and "e_payload e = Some p"
      and "truthy (userId s)
           \<longrightarrow> getMember (Some (indexUsers env (p_users p))) (e_userId e) = Inr u"
      and "r < nextRef st"
  shows "(truthy (pendingJoinCommandId s) \<and> pendingJoinCommandId s = e_correlationId e
          \<longrightarrow> resultState (eventReducer env r a st)
                = Some (s\<lparr>
                    roomId := e_roomId e,
                    userId := e_userId e,
                    selectedStory := p_selectedStory p,
                    highlightedStory := p_selectedStory p,
                    users := Some (indexUsers env (p_users p)),
                    stories := Some (indexStories env (p_stories p)),
                    estimations := Some (indexEstimations env (p_stories p)),
                    pendingJoinCommandId := None,
                    authorizationFailed := None,
                    cardConfig := p_cardConfig p,
                    autoReveal := p_autoReveal p,
                    passwordProtected := Some (truthyB (p_passwordProtected p)),
                    actionLog := Some (entry u)\<rparr>))
       \<and> (\<not> (truthy (pendingJoinCommandId s) \<and> pendingJoinCommandId s = e_correlationId e)
          \<longrightarrow> resultState (eventReducer env r a st)
                = Some (s\<lparr>
                    roomId := e_roomId e,
                    users := Some (indexUsers env (p_users p)),
                    actionLog := Some (entry u)\<rparr>))
       \<and> objs (storeAfter (eventReducer env r a st)) r = s\<lparr>roomId := e_roomId e\<rparr>"
proof -
  let ?h = "\<lparr>h_fn = joinedRoom_fn env, h_log = LogFunction joinedRoom_log\<rparr>"
  let ?st1 = "if adoptsRoom s e then assignRoomId r (e_roomId e) st else st"
  let ?s1 = "s\<lparr>roomId := e_roomId e\<rparr>"
  let ?msg = "if truthy (userId s) then orNewUser (u_username u) @ '' joined''
              else ''You joined room '' @ quoted (str (e_roomId e))"
  have names: "e_name e = Some ''joinedRoom''" "a_type a = ''JOINED_ROOM''"
    using assms(4) by (simp_all add: isEvent_iff e_def)
  have ft: "onFailedJoinRoom s e = FallsThrough"
    by (intro not_rejected_falls_through other_name_not_failed_join) (simp add: names)
  have run: "eventReducer env r a st = applyHandler env ?h e r ?st1"
    using ft assms(5) names
    by (simp add: eventReducer_def reduceWith_dispatch[where h = ?h] handler_of s_def e_def)
  have s1: "objs ?st1 r = ?s1"
    using assms(5) by (auto simp: inScope_def assignRoomId_def s_def)
  have ref: "r < nextRef ?st1"
    using assms(8) by (simp add: assignRoomId_def)
  have old: "objs ?st1 r' = objs st r'" if "r' \<noteq> r" for r'
    using that by (simp add: assignRoomId_def)
  have msg: "?msg \<noteq> []"
    by (simp add: quoted_def)
  have lg: "updateActionLog env (LogFunction joinedRoom_log) ?s1 c e =
       Inr (Some (c\<lparr>actionLog := Some
         (\<lparr>tstamp = formattedNow env, logId = freshUuid env, message = Some ?msg,
           isError = None\<rparr>
          # (case actionLog c of None \<Rightarrow> [] | Some l \<Rightarrow> l))\<rparr>))"
    if "users c = Some (indexUsers env (p_users p))" and "roomId c = e_roomId e" for c
    by (rule updateActionLog_message[OF _ msg])
       (use that assms(7) in \<open>simp add: joinedRoom_log_def bindE_def Let_def\<close>)
  have keep: "objs (storeAfter (eventReducer env r a st)) r = ?s1"
    using ref s1 by (simp add: run applyHandler_keeps)
  have own: "resultState (eventReducer env r a st)
                = Some (s\<lparr>
                    roomId := e_roomId e,
                    userId := e_userId e,
                    selectedStory := p_selectedStory p,
                    highlightedStory := p_selectedStory p,
                    users := Some (indexUsers env (p_users p)),
                    stories := Some (indexStories env (p_stories p)),
                    estimations := Some (indexEstimations env (p_stories p)),
                    pendingJoinCommandId := None,
                    authorizationFailed := None,
                    cardConfig := p_cardConfig p,
                    autoReveal := p_autoReveal p,
                    passwordProtected := Some (truthyB (p_passwordProtected p)),
                    actionLog := Some (entry u)\<rparr>)"
    if "truthy (pendingJoinCommandId s) \<and> pendingJoinCommandId s = e_correlationId e"
  proof -
    let ?c = "?s1\<lparr>
                    roomId := e_roomId e,
                    userId := e_userId e,
                    selectedStory := p_selectedStory p,
                    highlightedStory := p_selectedStory p,
                    users := Some (indexUsers env (p_users p)),
                    stories := Some (indexStories env (p_stories p)),
                    estimations := Some (indexEstimations env (p_stories p)),
                    pendingJoinCommandId := None,
                    authorizationFailed := None,
                    cardConfig := p_cardConfig p,
                    autoReveal := p_autoReveal p,
                    passwordProtected := Some (truthyB (p_passwordProtected p))\<rparr>"
    have fn: "h_fn ?h (objs ?st1 r) (e_payload e) e
                = ([SetPresetUserId (e_userId e)], Inr (NewObject ?c))"
      using that by (auto simp: s1 joinedRoom_fn_def assms(6) bindE_def payloadOf_def)
    show ?thesis
      using ref
      by (simp add: run applyHandler_new[OF fn ref] s1 lg resultState_def allocate_simps
          entry_def)
  qed
  have other: "resultState (eventReducer env r a st)
                = Some (s\<lparr>
                    roomId := e_roomId e,
                    users := Some (indexUsers env (p_users p)),
                    actionLog := Some (entry u)\<rparr>)"
    if "\<not> (truthy (pendingJoinCommandId s) \<and> pendingJoinCommandId s = e_correlationId e)"
  proof -
    let ?c = "?s1\<lparr>users := Some (indexUsers env (p_users p))\<rparr>"
    have fn: "h_fn ?h (objs ?st1 r) (e_payload e) e = ([], Inr (NewObject ?c))"
      using that by (auto simp: s1 joinedRoom_fn_def assms(6) bindE_def payloadOf_def)
    show ?thesis
      using ref
      by (simp add: run applyHandler_new[OF fn ref] s1 lg resultState_def allocate_simps
          entry_def)
  qed
  show ?thesis
    using own other keep by blast
qed

theorem joined_room_witness:
  "resultState (eventReducer exampleEnv 0 annaJoined (storeOf annaJoining))
     = Some (annaJoining\<lparr>
         roomId := Some ''r1'',
         userId := Some ''u1'',
         selectedStory := Some ''s1'',
         highlightedStory := Some ''s1'',
         users := Some [''u1'' \<mapsto> Some anna, ''u2'' \<mapsto> Some ben],
         stories := Some Map.empty,
         estimations := Some Map.empty,
         pendingJoinCommandId := None,
         authorizationFailed := None,
         cardConfig := None,
         autoReveal := Some True,
         passwordProtected := Some False,
         actionLog := Some [\<lparr>tstamp = ''12:00:00'', logId = ''log-1'',
           message = Some (''You joined room '' @ quoted ''r1''), isError = None\<rparr>]\<rparr>)
   \<and> resultState (eventReducer exampleEnv 0 carlJoined (storeOf annaInRoom))
     = Some (annaInRoom\<lparr>
         users := Some [''u1'' \<mapsto> Some anna, ''u2'' \<mapsto> Some ben, ''u3'' \<mapsto> Some carl],
         actionLog := Some [\<lparr>tstamp = ''12:00:00'', logId = ''log-1'',
           message = Some ''New user joined'', isError = None\<rparr>]\<rparr>)"
proof -
  have ev: "isEvent ''joinedRoom'' annaJoined" "isEvent ''joinedRoom'' carlJoined"
    by (simp_all add: isEvent_iff annaJoined_def carlJoined_def)
  have scope: "inScope (objs (storeOf annaJoining) 0) (a_event annaJoined)"
    "inScope (objs (storeOf annaInRoom) 0) (a_event carlJoined)"
    by (simp_all add: inScope_def adoptsRoom_def truthy_def example_simps annaJoined_def
        carlJoined_def)
  have pl: "e_payload (a_event annaJoined) = Some snapshot"
    "e_payload (a_event carlJoined) = Some (emptyPayload\<lparr>p_users := Some [anna, ben, carl]\<rparr>)"
    by (simp_all add: annaJoined_def carlJoined_def)
  have ref: "0 < nextRef (storeOf annaJoining)" "0 < nextRef (storeOf annaInRoom)"
    by (simp_all add: example_simps)
  have idx: "indexUsers exampleEnv (Some [anna, ben]) = [''u1'' \<mapsto> Some anna, ''u2'' \<mapsto> Some ben]"
    "indexUsers exampleEnv (Some [anna, ben, carl])
       = [''u1'' \<mapsto> Some anna, ''u2'' \<mapsto> Some ben, ''u3'' \<mapsto> Some carl]"
    "indexStories exampleEnv (Some []) = Map.empty"
    "indexEstimations exampleEnv (Some []) = Map.empty"
    by (auto simp: exampleEnv_def str_def anna_def ben_def carl_def)
  have new: "truthy (userId (objs (storeOf annaJoining) 0)) \<longrightarrow>
      getMember (Some (indexUsers exampleEnv (p_users snapshot)))
        (e_userId (a_event annaJoined)) = Inr anna"
    by (simp add: truthy_def example_simps)
  have known: "truthy (userId (objs (storeOf annaInRoom) 0)) \<longrightarrow>
      getMember (Some (indexUsers exampleEnv
          (p_users (emptyPayload\<lparr>p_users := Some [anna, ben, carl]\<rparr>))))
        (e_userId (a_event carlJoined)) = Inr carl"
    by (simp add: idx carlJoined_def getMember_def held_def propKey_def str_def)
  have evs: "e_roomId (a_event annaJoined) = Some ''r1''"
    "e_userId (a_event annaJoined) = Some ''u1''"
    "e_correlationId (a_event annaJoined) = Some ''c1''"
    "e_roomId (a_event carlJoined) = Some ''r1''"
    "e_userId (a_event carlJoined) = Some ''u3''"
    "e_correlationId (a_event carlJoined) = None"
    by (simp_all add: annaJoined_def carlJoined_def)
  have name: "orNewUser (u_username carl) = ''New user''"
    by (simp add: orNewUser_def orElse_def truthy_def str_def carl_def emptyUser_def)
  have snap: "p_selectedStory snapshot = Some ''s1''" "p_users snapshot = Some [anna, ben]"
    "p_stories snapshot = Some []" "p_cardConfig snapshot = None"
    "p_autoReveal snapshot = Some True" "p_passwordProtected snapshot = None"
    by (simp_all add: snapshot_def emptyPayload_def)
  have same: "annaInRoom\<lparr>roomId := Some ''r1''\<rparr> = annaInRoom"
    by (simp add: annaInRoom_def)
  show ?thesis
    using joined_room[OF ev(1) scope(1) pl(1) new ref(1)]
      joined_room[OF ev(2) scope(2) pl(2) known ref(2)]
    by (simp add: evs name snap idx example_simps truthy_def str_def truthyB_def same)
qed

subsection \<open>C2: events of another room\<close>

text \<open>
  C2 as stated: when the state has a room and the event is of another room, the reducer
  returns the object it was given, unchanged, for every kind of event. It does not for a
  rejected \<open>joinRoom\<close> command, which the reducer handles before it compares the rooms.
  Here Anna's client, in room \<open>r1\<close>, is told that its join of \<open>r2\<close> was not
  authorized: the reducer returns a new object, with \<open>authorizationFailed\<close> set.
\<close>

theorem rejected_join_passes_room_check:
  "roomId annaInRoom = Some ''r1''
   \<and> e_roomId (a_event joinRejected) = Some ''r2''
   \<and> \<not> adoptsRoom annaInRoom (a_event joinRejected)
   \<and> returned (eventReducer exampleEnv 0 joinRejected (storeOf annaInRoom)) = Inr 1
   \<and> resultState (eventReducer exampleEnv 0 joinRejected (storeOf annaInRoom))
       = Some (annaInRoom\<lparr>authorizationFailed := Some ''r2''\<rparr>)
   \<and> authorizationFailed annaInRoom = None"
  by (simp add: reducer_defs joinRejected_def rejection_def joinOfR2_def emptyPayload_def
      adoptsRoom_def annaInRoom_def emptyState_def)

text \<open>
  C2, amended. When the room of the event is not the \<open>roomId\<close> of the state, the reducer
  does not adopt the room (the state has a room, or the event is not \<open>joinedRoom\<close>), and
  the first block of the reducer falls through (the event is not a rejected \<open>joinRoom\<close>
  command with a missing reason, a username validation error or \<open>Not Authorized\<close>), the
  reducer returns the very object it was given, leaves the store as it was and logs one
  warning, whatever the table of handlers holds for the type of the action.
\<close>

theorem other_room_event_discarded:
  assumes "roomId (objs st r) \<noteq> e_roomId (a_event a)"
      and "\<not> adoptsRoom (objs st r) (a_event a)"
      and "onFailedJoinRoom (objs st r) (a_event a) = FallsThrough"
  shows "eventReducer env r a st =
           \<lparr>returned = Inr r, storeAfter = st,
            trace = [WarnDifferentRoom (roomId (objs st r)) (e_roomId (a_event a))
                       (e_name (a_event a))]\<rparr>
       \<and> (\<forall>handlers. reduceWith handlers env r a st = eventReducer env r a st)"
  using assms by (simp add: eventReducer_def reduceWith_other_room)

theorem other_room_event_discarded_witness:
  "eventReducer exampleEnv 0 storyAddedElsewhere (storeOf annaInRoom) =
     \<lparr>returned = Inr 0, storeAfter = storeOf annaInRoom,
      trace = [WarnDifferentRoom (Some ''r1'') (Some ''r2'') (Some ''storyAdded'')]\<rparr>
   \<and> reduceWith Map.empty exampleEnv 0 storyAddedElsewhere (storeOf annaInRoom) =
     \<lparr>returned = Inr 0, storeAfter = storeOf annaInRoom,
      trace = [WarnDifferentRoom (Some ''r1'') (Some ''r2'') (Some ''storyAdded'')]\<rparr>"
proof -
  have 1: "roomId (objs (storeOf annaInRoom) 0) \<noteq> e_roomId (a_event storyAddedElsewhere)"
    by (simp add: example_simps storyAddedElsewhere_def)
  have 2: "\<not> adoptsRoom (objs (storeOf annaInRoom) 0) (a_event storyAddedElsewhere)"
    by (simp add: adoptsRoom_def storyAddedElsewhere_def)
  have 3: "onFailedJoinRoom (objs (storeOf annaInRoom) 0) (a_event storyAddedElsewhere)
             = FallsThrough"
    by (simp add: onFailedJoinRoom_def isFailedJoinRoom_def storyAddedElsewhere_def)
  show ?thesis
    using other_room_event_discarded[OF 1 2 3, of exampleEnv]
    by (simp add: example_simps storyAddedElsewhere_def)
qed

subsection \<open>C3: the own user leaves or is kicked\<close>

text \<open>
  C3 as stated: when the user of the state is the subject of a \<open>leftRoom\<close> or
  \<open>kicked\<close> event, the result of the reducer equals a fresh initial state. It does not:
  the transition function returns a copy of the initial state, and then the log function
  of the handler adds an entry to it. Here Anna's client receives her own \<open>leftRoom\<close>.
\<close>

theorem own_leave_is_logged:
  "isEvent ''leftRoom'' annaLeft
   \<and> userId annaInRoom = e_userId (a_event annaLeft)
   \<and> roomId annaInRoom = e_roomId (a_event annaLeft)
   \<and> resultState (eventReducer exampleEnv 0 annaLeft (storeOf annaInRoom))
       = Some (emptyState\<lparr>actionLog := Some [\<lparr>tstamp = ''12:00:00'', logId = ''log-1'',
           message = Some ''Anna left the room'', isError = None\<rparr>]\<rparr>)
   \<and> initialState exampleEnv = emptyState
   \<and> resultState (eventReducer exampleEnv 0 annaLeft (storeOf annaInRoom))
       \<noteq> Some (initialState exampleEnv)"
proof -
  have ev: "resultState (eventReducer exampleEnv 0 annaLeft (storeOf annaInRoom))
       = Some (emptyState\<lparr>actionLog := Some [\<lparr>tstamp = ''12:00:00'', logId = ''log-1'',
           message = Some ''Anna left the room'', isError = None\<rparr>]\<rparr>)"
    by (simp add: reducer_defs eventActionHandlers_def leftRoom_fn_def leftRoom_log_def
        annaLeft_def annaInRoom_def emptyState_def exampleEnv_def anna_def emptyUser_def)
  have "emptyState\<lparr>actionLog := Some [\<lparr>tstamp = ''12:00:00'', logId = ''log-1'',
           message = Some ''Anna left the room'', isError = None\<rparr>]\<rparr> \<noteq> emptyState"
    (is "?x \<noteq> _")
  proof
    assume "?x = emptyState"
    then have "actionLog ?x = actionLog emptyState"
      by (rule arg_cong)
    then show False
      by (simp add: example_simps)
  qed
  then show ?thesis
    using ev by (simp add: isEvent_iff annaLeft_def example_simps)
qed

text \<open>
  C3, amended. For an event of the room of the state: when the \<open>userId\<close> of the state
  is the \<open>userId\<close> of a \<open>leftRoom\<close> event, or the \<open>userId\<close> in the payload of a
  \<open>kicked\<close> event, and the users named in the log message are in the \<open>users\<close> of the
  state (the user who left; the kicked and the kicking user), the result of the reducer is
  a fresh initial state with one entry put in front of its \<open>actionLog\<close>, whatever else
  the state held. The input object is not written to.
\<close>

theorem own_leave_or_kick_resets:
  assumes "roomId (objs st r) = e_roomId (a_event a)"
      and "r < nextRef st"
  shows "(isEvent ''leftRoom'' a
          \<and> userId (objs st r) = e_userId (a_event a)
          \<and> getMember (users (objs st r)) (e_userId (a_event a)) = Inr u
          \<longrightarrow> resultState (eventReducer env r a st)
                = Some ((initialState env)\<lparr>actionLog := Some
                    (\<lparr>tstamp = formattedNow env, logId = freshUuid env,
                      message = Some (orNewUser (u_username u) @ '' left the room''),
                      isError = None\<rparr>
                     # (case actionLog (initialState env) of None \<Rightarrow> [] | Some l \<Rightarrow> l))\<rparr>))
       \<and> (isEvent ''kicked'' a
          \<and> e_payload (a_event a) = Some p
          \<and> p_userId p = userId (objs st r)
          \<and> getMember (users (objs st r)) (p_userId p) = Inr u
          \<and> getMember (users (objs st r)) (e_userId (a_event a)) = Inr k
          \<longrightarrow> resultState (eventReducer env r a st)
                = Some ((initialState env)\<lparr>actionLog := Some
                    (\<lparr>tstamp = formattedNow env, logId = freshUuid env,
                      message = Some (orNewUser (u_username u)
                                      @ '' was kicked from the room by '' @ str (u_username k)),
                      isError = None\<rparr>
                     # (case actionLog (initialState env) of None \<Rightarrow> [] | Some l \<Rightarrow> l))\<rparr>))
       \<and> objs (storeAfter (eventReducer env r a st)) r = objs st r"
proof -
  let ?e = "a_event a" and ?s = "objs st r" and ?init = "initialState env"
  have left: "resultState (eventReducer env r a st)
                = Some (?init\<lparr>actionLog := Some
                    (\<lparr>tstamp = formattedNow env, logId = freshUuid env,
                      message = Some (orNewUser (u_username u) @ '' left the room''),
                      isError = None\<rparr>
                     # (case actionLog ?init of None \<Rightarrow> [] | Some l \<Rightarrow> l))\<rparr>)"
    if ev: "isEvent ''leftRoom'' a" and own: "userId ?s = e_userId ?e"
      and mem: "getMember (users ?s) (e_userId ?e) = Inr u"
  proof -
    let ?h = "\<lparr>h_fn = leftRoom_fn env, h_log = LogFunction leftRoom_log\<rparr>"
    have ft: "onFailedJoinRoom ?s ?e = FallsThrough"
      using ev
      by (intro not_rejected_falls_through other_name_not_failed_join) (simp add: isEvent_iff)
    have run: "eventReducer env r a st = applyHandler env ?h ?e r st"
      using ev ft assms(1) by (simp add: eventReducer_def reduceWith_in_room isEvent_iff handler_of)
    have fn: "h_fn ?h ?s (e_payload ?e) ?e = ([], Inr (NewObject ?init))"
      using own by (simp add: leftRoom_fn_def)
    have lg: "updateActionLog env (LogFunction leftRoom_log) ?s ?init ?e =
       Inr (Some (?init\<lparr>actionLog := Some
         (\<lparr>tstamp = formattedNow env, logId = freshUuid env,
           message = Some (orNewUser (u_username u) @ '' left the room''), isError = None\<rparr>
          # (case actionLog ?init of None \<Rightarrow> [] | Some l \<Rightarrow> l))\<rparr>))"
      by (rule updateActionLog_message) (simp_all add: leftRoom_log_def mem bindE_def)
    show ?thesis
      using assms(2)
      by (simp add: run applyHandler_new[OF fn assms(2)] lg resultState_def allocate_simps)
  qed
  have kicked: "resultState (eventReducer env r a st)
                = Some (?init\<lparr>actionLog := Some
                    (\<lparr>tstamp = formattedNow env, logId = freshUuid env,
                      message = Some (orNewUser (u_username u)
                                      @ '' was kicked from the room by '' @ str (u_username k)),
                      isError = None\<rparr>
                     # (case actionLog ?init of None \<Rightarrow> [] | Some l \<Rightarrow> l))\<rparr>)"
    if ev: "isEvent ''kicked'' a" and pl: "e_payload ?e = Some p"
      and own: "p_userId p = userId ?s"
      and mem: "getMember (users ?s) (p_userId p) = Inr u"
      and by_k: "getMember (users ?s) (e_userId ?e) = Inr k"
  proof -
    let ?h = "\<lparr>h_fn = kicked_fn env, h_log = LogFunction kicked_log\<rparr>"
    have ft: "onFailedJoinRoom ?s ?e = FallsThrough"
      using ev
      by (intro not_rejected_falls_through other_name_not_failed_join) (simp add: isEvent_iff)
    have run: "eventReducer env r a st = applyHandler env ?h ?e r st"
      using ev ft assms(1) by (simp add: eventReducer_def reduceWith_in_room isEvent_iff handler_of)
    have fn: "h_fn ?h ?s (e_payload ?e) ?e = ([], Inr (NewObject ?init))"
      using own pl by (simp add: kicked_fn_def bindE_def payloadOf_def)
    have lg: "updateActionLog env (LogFunction kicked_log) ?s ?init ?e =
       Inr (Some (?init\<lparr>actionLog := Some
         (\<lparr>tstamp = formattedNow env, logId = freshUuid env,
           message = Some (orNewUser (u_username u)
                           @ '' was kicked from the room by '' @ str (u_username k)),
           isError = None\<rparr>
          # (case actionLog ?init of None \<Rightarrow> [] | Some l \<Rightarrow> l))\<rparr>))"
      by (rule updateActionLog_message)
         (simp_all add: kicked_log_def pl mem by_k bindE_def payloadOf_def)
    show ?thesis
      using assms(2)
      by (simp add: run applyHandler_new[OF fn assms(2)] lg resultState_def allocate_simps)
  qed
  have keep: "objs (storeAfter (eventReducer env r a st)) r = ?s"
    using assms by (simp add: eventReducer_def reduceWith_keeps_input)
  show ?thesis
    using left kicked keep by blast
qed

theorem own_leave_or_kick_resets_witness:
  "resultState (eventReducer exampleEnv 0 annaLeft (storeOf annaInRoom))
       = Some (emptyState\<lparr>actionLog := Some [\<lparr>tstamp = ''12:00:00'', logId = ''log-1'',
           message = Some ''Anna left the room'', isError = None\<rparr>]\<rparr>)
   \<and> resultState (eventReducer exampleEnv 0 annaKicked (storeOf annaInRoom))
       = Some (emptyState\<lparr>actionLog := Some [\<lparr>tstamp = ''12:00:00'', logId = ''log-1'',
           message = Some ''Anna was kicked from the room by Ben'', isError = None\<rparr>]\<rparr>)
   \<and> objs (storeAfter (eventReducer exampleEnv 0 annaLeft (storeOf annaInRoom))) 0
       = annaInRoom"
proof -
  have room: "roomId (objs (storeOf annaInRoom) 0) = e_roomId (a_event annaLeft)"
    "roomId (objs (storeOf annaInRoom) 0) = e_roomId (a_event annaKicked)"
    by (simp_all add: example_simps annaLeft_def annaKicked_def)
  have ref: "0 < nextRef (storeOf annaInRoom)"
    by (simp add: example_simps)
  have l: "isEvent ''leftRoom'' annaLeft"
    "userId (objs (storeOf annaInRoom) 0) = e_userId (a_event annaLeft)"
    "getMember (users (objs (storeOf annaInRoom) 0)) (e_userId (a_event annaLeft)) = Inr anna"
    by (simp_all add: isEvent_iff example_simps annaLeft_def getMember_def held_def propKey_def str_def)
  have k: "isEvent ''kicked'' annaKicked"
    "e_payload (a_event annaKicked) = Some (emptyPayload\<lparr>p_userId := Some ''u1''\<rparr>)"
    "p_userId (emptyPayload\<lparr>p_userId := Some ''u1''\<rparr>) = userId (objs (storeOf annaInRoom) 0)"
    "getMember (users (objs (storeOf annaInRoom) 0))
       (p_userId (emptyPayload\<lparr>p_userId := Some ''u1''\<rparr>)) = Inr anna"
    "getMember (users (objs (storeOf annaInRoom) 0)) (e_userId (a_event annaKicked)) = Inr ben"
    by (simp_all add: isEvent_iff example_simps annaKicked_def getMember_def held_def propKey_def str_def)
  have names: "orNewUser (u_username anna) = ''Anna''" "str (u_username ben) = ''Ben''"
    by (simp_all add: orNewUser_def orElse_def truthy_def str_def anna_def ben_def)
  show ?thesis
    using own_leave_or_kick_resets[OF room(1) ref, where u = anna and env = exampleEnv]
      own_leave_or_kick_resets[OF room(2) ref, where u = anna and k = ben
        and env = exampleEnv and p = "emptyPayload\<lparr>p_userId := Some ''u1''\<rparr>"] l k
    by (simp add: names example_simps)
qed

subsection \<open>C4: a new estimation round\<close>

text \<open>
  The transition function of \<open>newEstimationRoundStarted\<close>, and its log message, written
  out. The function writes \<open>undefined\<close> under the key of the story in \<open>estimations\<close>,
  and into the \<open>consensus\<close> of the story: it deletes neither.
\<close>

lemma newRound_fn:
  "newEstimationRoundStarted_fn state (Some p) e =
     ([], case stories state of
            None \<Rightarrow> Inl TypeError
          | Some m \<Rightarrow> Inr (NewObject (state\<lparr>
              applause := Some False,
              stories := Some (m(propKey (p_storyId p) \<mapsto>
                Some ((spreadStory (held (m (propKey (p_storyId p)))))\<lparr>
                   s_revealed := Some False, s_consensus := Some None\<rparr>))),
              estimations :=
                Some ((spread (estimations state))(propKey (p_storyId p) \<mapsto> None))\<rparr>)))"
  by (simp add: newEstimationRoundStarted_fn_def bindE_def payloadOf_def getProp_def spread_def
      split: option.splits)

lemma newRound_log:
  assumes "stories new = Some m" and "m (propKey (p_storyId p)) = Some (Some sty)"
  shows "newEstimationRoundStarted_log username (Some p) old new e =
           Inr (Message (username @ '' started a new estimation round for story ''
                          @ quoted (str (s_title sty))))"
  using assms
  by (simp add: newEstimationRoundStarted_log_def bindE_def payloadOf_def getMember_def
      held_def)

text \<open>
  C4 as stated: after a \<open>newEstimationRoundStarted\<close> event for the story \<open>S\<close>,
  \<open>stories[S].revealed\<close> is \<open>false\<close>, \<open>stories[S].consensus\<close> is absent, and
  \<open>estimations\<close> has no entry for \<open>S\<close>. The last part fails: the handler writes
  \<open>[payload.storyId]: undefined\<close>, so \<open>S\<close> stays a key of \<open>estimations\<close>, holding
  \<open>undefined\<close>. Here Ben starts a new round on \<open>s1\<close> in the room of Anna's client.
\<close>

theorem new_round_keeps_key:
  "isEvent ''newEstimationRoundStarted'' newRound
   \<and> roomId annaInRoom = e_roomId (a_event newRound)
   \<and> resultState (eventReducer exampleEnv 0 newRound (storeOf annaInRoom))
       = Some afterNewRound
   \<and> estimations afterNewRound = Some [''s1'' \<mapsto> None]
   \<and> hasOwnProperty (estimations afterNewRound) (Some ''s1'')"
proof -
  have ev: "resultState (eventReducer exampleEnv 0 newRound (storeOf annaInRoom))
              = Some afterNewRound"
    by (simp add: reducer_defs eventActionHandlers_def newEstimationRoundStarted_fn_def
        newEstimationRoundStarted_log_def newRound_def afterNewRound_def annaInRoom_def
        emptyState_def emptyPayload_def exampleEnv_def featureX_def ben_def emptyUser_def
        emptyStory_def)
  have est: "estimations afterNewRound = Some [''s1'' \<mapsto> None]"
    by (simp add: afterNewRound_def)
  show ?thesis
    using ev est
    by (simp add: isEvent_iff newRound_def example_simps hasOwnProperty_def propKey_def str_def)
qed

text \<open>
  C4, amended. Take a \<open>newEstimationRoundStarted\<close> event for the story \<open>S\<close>, with a
  payload, of the room of the state. When the state has no \<open>stories\<close> object the reducer
  throws a \<open>TypeError\<close>. Otherwise it returns a state in which \<open>stories[S].revealed\<close>
  is \<open>false\<close>, \<open>stories[S].consensus\<close> is a property that holds \<open>undefined\<close>, and
  \<open>S\<close> is a key of \<open>estimations\<close> that holds \<open>undefined\<close>, so that
  \<open>estimations[S]\<close> reads as \<open>undefined\<close>.
\<close>

theorem new_round_resets_story:
  assumes "isEvent ''newEstimationRoundStarted'' a"
      and "e_payload (a_event a) = Some p"
      and "roomId (objs st r) = e_roomId (a_event a)"
      and "r < nextRef st"
  shows "case stories (objs st r) of
           None \<Rightarrow> returned (eventReducer env r a st) = Inl TypeError
         | Some m \<Rightarrow>
             (\<exists>s' sty. resultState (eventReducer env r a st) = Some s'
                \<and> getMember (stories s') (p_storyId p) = Inr sty
                \<and> s_revealed sty = Some False
                \<and> s_consensus sty = Some None
                \<and> hasOwnProperty (estimations s') (p_storyId p)
                \<and> getProp (estimations s') (p_storyId p) = Inr None)"
proof -
  let ?e = "a_event a" and ?s = "objs st r"
  let ?h = "\<lparr>h_fn = newEstimationRoundStarted_fn,
             h_log = LogFunction newEstimationRoundStarted_log\<rparr>"
  have names: "e_name ?e = Some ''newEstimationRoundStarted''"
    "a_type a = ''NEW_ESTIMATION_ROUND_STARTED''"
    using assms(1) by (simp_all add: isEvent_iff)
  have ft: "onFailedJoinRoom ?s ?e = FallsThrough"
    by (intro not_rejected_falls_through other_name_not_failed_join) (simp add: names)
  have run: "eventReducer env r a st = applyHandler env ?h ?e r st"
    using ft assms(3) by (simp add: eventReducer_def reduceWith_in_room names handler_of)
  show ?thesis
  proof (cases "stories ?s")
    case None
    then show ?thesis
      by (simp add: run applyHandler_def assms(2) newRound_fn)
  next
    case (Some m)
    let ?k = "propKey (p_storyId p)"
    let ?sty = "(spreadStory (held (m ?k)))\<lparr>s_revealed := Some False, s_consensus := Some None\<rparr>"
    let ?c = "?s\<lparr>applause := Some False, stories := Some (m(?k \<mapsto> Some ?sty)),
                 estimations := Some ((spread (estimations ?s))(?k \<mapsto> None))\<rparr>"
    have fn: "h_fn ?h ?s (e_payload ?e) ?e = ([], Inr (NewObject ?c))"
      by (simp add: assms(2) newRound_fn Some)
    have lg: "updateActionLog env (h_log ?h) ?s ?c ?e \<noteq> Inl TypeError
              \<and> updateActionLog env (h_log ?h) ?s ?c ?e \<noteq> Inr None"
      by (simp add: updateActionLog_def truthyLog_def assms(2)
          newRound_log[where m = "m(?k \<mapsto> Some ?sty)"] bindE_def truthyMessage_def Let_def)
    obtain c' where c': "updateActionLog env (h_log ?h) ?s ?c ?e = Inr (Some c')"
      using lg by (cases "updateActionLog env (h_log ?h) ?s ?c ?e") (auto intro: exn.exhaust)
    have frame: "stories c' = stories ?c" "estimations c' = estimations ?c"
      using c' by (rule updateActionLog_keeps)+
    have res: "resultState (eventReducer env r a st) = Some c'"
      using assms(4) c'
      by (simp add: run applyHandler_new[OF fn assms(4)] resultState_def allocate_simps)
    have "getMember (stories c') (p_storyId p) = Inr ?sty
          \<and> hasOwnProperty (estimations c') (p_storyId p)
          \<and> getProp (estimations c') (p_storyId p) = Inr None"
      by (simp add: frame getMember_def getProp_def hasOwnProperty_def held_def)
    then show ?thesis
      using res Some by auto
  qed
qed

theorem new_round_resets_story_witness:
  "resultState (eventReducer exampleEnv 0 newRound (storeOf annaInRoom)) = Some afterNewRound
   \<and> (\<exists>s' sty. resultState (eventReducer exampleEnv 0 newRound (storeOf annaInRoom)) = Some s'
         \<and> getMember (stories s') (Some ''s1'') = Inr sty
         \<and> s_revealed sty = Some False
         \<and> s_consensus sty = Some None
         \<and> hasOwnProperty (estimations s') (Some ''s1'')
         \<and> getProp (estimations s') (Some ''s1'') = Inr None)"
proof -
  let ?p = "emptyPayload\<lparr>p_storyId := Some ''s1''\<rparr>"
  have 1: "isEvent ''newEstimationRoundStarted'' newRound"
    by (simp add: isEvent_iff newRound_def)
  have 2: "e_payload (a_event newRound) = Some ?p"
    by (simp add: newRound_def)
  have 3: "roomId (objs (storeOf annaInRoom) 0) = e_roomId (a_event newRound)"
    by (simp add: storeOf_def annaInRoom_def newRound_def)
  have 4: "0 < nextRef (storeOf annaInRoom)"
    by (simp add: storeOf_def)
  have ev: "resultState (eventReducer exampleEnv 0 newRound (storeOf annaInRoom))
              = Some afterNewRound"
    by (simp add: reducer_defs eventActionHandlers_def newEstimationRoundStarted_fn_def
        newEstimationRoundStarted_log_def newRound_def afterNewRound_def annaInRoom_def
        emptyState_def emptyPayload_def exampleEnv_def featureX_def ben_def emptyUser_def
        emptyStory_def)
  have "stories (objs (storeOf annaInRoom) 0) = Some [''s1'' \<mapsto> Some featureX]"
    by (simp add: storeOf_def annaInRoom_def)
  then show ?thesis
    using new_round_resets_story[OF 1 2 3 4, of exampleEnv] ev
    by (simp add: emptyPayload_def)
qed

subsection \<open>C5: room created, import failed\<close>

text \<open>
  C5 as stated: a \<open>roomCreated\<close> or \<open>importFailed\<close> event of the room of the state
  leaves every field of the state as it was, \<open>actionLog\<close> included. It does not: both
  handlers have a log function, and the log gets an entry. Here Anna's client, in room
  \<open>r1\<close> with an empty log, receives \<open>roomCreated\<close> for \<open>r1\<close>.
\<close>

theorem room_created_is_logged:
  "isEvent ''roomCreated'' roomCreatedEvent
   \<and> roomId annaInRoom = e_roomId (a_event roomCreatedEvent)
   \<and> resultState (eventReducer exampleEnv 0 roomCreatedEvent (storeOf annaInRoom))
       = Some (annaInRoom\<lparr>actionLog := Some [\<lparr>tstamp = ''12:00:00'', logId = ''log-1'',
           message = Some (''Room '' @ quoted ''r1'' @ '' created''), isError = None\<rparr>]\<rparr>)
   \<and> actionLog annaInRoom = Some []
   \<and> resultState (eventReducer exampleEnv 0 roomCreatedEvent (storeOf annaInRoom))
       \<noteq> Some annaInRoom"
proof -
  have ev: "resultState (eventReducer exampleEnv 0 roomCreatedEvent (storeOf annaInRoom))
       = Some (annaInRoom\<lparr>actionLog := Some [\<lparr>tstamp = ''12:00:00'', logId = ''log-1'',
           message = Some (''Room '' @ quoted ''r1'' @ '' created''), isError = None\<rparr>]\<rparr>)"
    by (simp add: reducer_defs eventActionHandlers_def roomCreated_fn_def roomCreated_log_def
        roomCreatedEvent_def annaInRoom_def emptyState_def emptyPayload_def exampleEnv_def
        anna_def emptyUser_def)
  have log: "actionLog annaInRoom = Some []"
    by (simp add: annaInRoom_def emptyState_def)
  have "annaInRoom\<lparr>actionLog := Some [\<lparr>tstamp = ''12:00:00'', logId = ''log-1'',
           message = Some (''Room '' @ quoted ''r1'' @ '' created''), isError = None\<rparr>]\<rparr>
        \<noteq> annaInRoom" (is "?x \<noteq> _")
  proof
    assume "?x = annaInRoom"
    then have "actionLog ?x = actionLog annaInRoom"
      by (rule arg_cong)
    then show False
      using log by simp
  qed
  then show ?thesis
    using ev log
    by (simp add: isEvent_iff roomCreatedEvent_def)
       (simp add: annaInRoom_def)
qed

text \<open>
  C5, amended. A \<open>roomCreated\<close> or \<open>importFailed\<close> event of the room of the state, with
  a payload, changes \<open>actionLog\<close> and nothing else: the reducer returns a new state that
  is the input state with one entry put in front of its log, \<open>Room "id" created\<close> or
  \<open>CSV import failed.\<close> followed by the message. The input object is not written to.
\<close>

theorem log_only_events:
  assumes "isEvent ''roomCreated'' a \<or> isEvent ''importFailed'' a"
      and "roomId (objs st r) = e_roomId (a_event a)"
      and "e_payload (a_event a) = Some p"
      and "r < nextRef st"
  shows "resultState (eventReducer env r a st)
           = Some ((objs st r)\<lparr>actionLog := Some
               (\<lparr>tstamp = formattedNow env, logId = freshUuid env,
                 message = Some (if isEvent ''roomCreated'' a
                                 then ''Room '' @ quoted (str (p_id p)) @ '' created''
                                 else ''CSV import failed. '' @ str (p_message p)),
                 isError = None\<rparr>
                # (case actionLog (objs st r) of None \<Rightarrow> [] | Some l \<Rightarrow> l))\<rparr>)
       \<and> objs (storeAfter (eventReducer env r a st)) r = objs st r"
proof -
  let ?e = "a_event a" and ?s = "objs st r"
  have ft: "onFailedJoinRoom ?s ?e = FallsThrough"
    using assms(1)
    by (intro not_rejected_falls_through other_name_not_failed_join) (auto simp: isEvent_iff)
  from assms(1) show ?thesis
  proof
    assume ev: "isEvent ''roomCreated'' a"
    let ?h = "\<lparr>h_fn = roomCreated_fn, h_log = LogFunction roomCreated_log\<rparr>"
    have run: "eventReducer env r a st = applyHandler env ?h ?e r st"
      using ev ft assms(2) by (simp add: eventReducer_def reduceWith_in_room isEvent_iff handler_of)
    have fn: "h_fn ?h ?s (e_payload ?e) ?e = ([], Inr TheState)"
      by (simp add: roomCreated_fn_def)
    have lg: "updateActionLog env (LogFunction roomCreated_log) ?s ?s ?e =
       Inr (Some (?s\<lparr>actionLog := Some
         (\<lparr>tstamp = formattedNow env, logId = freshUuid env,
           message = Some (''Room '' @ quoted (str (p_id p)) @ '' created''), isError = None\<rparr>
          # (case actionLog ?s of None \<Rightarrow> [] | Some l \<Rightarrow> l))\<rparr>))"
      by (rule updateActionLog_message)
         (simp_all add: roomCreated_log_def assms(3) bindE_def payloadOf_def)
    show ?thesis
      using assms(4) ev
      by (simp add: run applyHandler_same[OF fn] lg resultState_def allocate_simps)
  next
    assume ev: "isEvent ''importFailed'' a"
    then have no: "\<not> isEvent ''roomCreated'' a"
      by (simp add: isEvent_iff)
    let ?h = "\<lparr>h_fn = importFailed_fn, h_log = LogFunction importFailed_log\<rparr>"
    have run: "eventReducer env r a st = applyHandler env ?h ?e r st"
      using ev ft assms(2) by (simp add: eventReducer_def reduceWith_in_room isEvent_iff handler_of)
    have fn: "h_fn ?h ?s (e_payload ?e) ?e = ([], Inr TheState)"
      by (simp add: importFailed_fn_def)
    have lg: "updateActionLog env (LogFunction importFailed_log) ?s ?s ?e =
       Inr (Some (?s\<lparr>actionLog := Some
         (\<lparr>tstamp = formattedNow env, logId = freshUuid env,
           message = Some (''CSV import failed. '' @ str (p_message p)), isError = None\<rparr>
          # (case actionLog ?s of None \<Rightarrow> [] | Some l \<Rightarrow> l))\<rparr>))"
      by (rule updateActionLog_message)
         (simp_all add: importFailed_log_def assms(3) bindE_def payloadOf_def)
    show ?thesis
      using assms(4) no
      by (simp add: run applyHandler_same[OF fn] lg resultState_def allocate_simps)
  qed
qed

theorem log_only_events_witness:
  "resultState (eventReducer exampleEnv 0 roomCreatedEvent (storeOf annaInRoom))
       = Some (annaInRoom\<lparr>actionLog := Some [\<lparr>tstamp = ''12:00:00'', logId = ''log-1'',
           message = Some (''Room '' @ quoted ''r1'' @ '' created''), isError = None\<rparr>]\<rparr>)
   \<and> resultState (eventReducer exampleEnv 0 importFailedEvent (storeOf annaInRoom))
       = Some (annaInRoom\<lparr>actionLog := Some [\<lparr>tstamp = ''12:00:00'', logId = ''log-1'',
           message = Some ''CSV import failed. no header'', isError = None\<rparr>]\<rparr>)
   \<and> objs (storeAfter (eventReducer exampleEnv 0 roomCreatedEvent (storeOf annaInRoom))) 0
       = annaInRoom"
proof -
  have 1: "isEvent ''roomCreated'' roomCreatedEvent \<or> isEvent ''importFailed'' roomCreatedEvent"
    "isEvent ''roomCreated'' importFailedEvent \<or> isEvent ''importFailed'' importFailedEvent"
    by (simp_all add: isEvent_iff roomCreatedEvent_def importFailedEvent_def)
  have 2: "roomId (objs (storeOf annaInRoom) 0) = e_roomId (a_event roomCreatedEvent)"
    "roomId (objs (storeOf annaInRoom) 0) = e_roomId (a_event importFailedEvent)"
    by (simp_all add: storeOf_def annaInRoom_def roomCreatedEvent_def importFailedEvent_def)
  have 3: "e_payload (a_event roomCreatedEvent) = Some (emptyPayload\<lparr>p_id := Some ''r1''\<rparr>)"
    "e_payload (a_event importFailedEvent) = Some (emptyPayload\<lparr>p_message := Some ''no header''\<rparr>)"
    by (simp_all add: roomCreatedEvent_def importFailedEvent_def)
  have 4: "0 < nextRef (storeOf annaInRoom)"
    by (simp add: storeOf_def)
  have yes: "isEvent ''roomCreated'' roomCreatedEvent"
    and no: "\<not> isEvent ''roomCreated'' importFailedEvent"
    by (simp_all add: isEvent_iff roomCreatedEvent_def importFailedEvent_def)
  show ?thesis
    using log_only_events[OF 1(1) 2(1) 3(1) 4, of exampleEnv]
      log_only_events[OF 1(2) 2(2) 3(2) 4, of exampleEnv] yes no
    by (simp add: example_simps str_def emptyPayload_def)
qed

subsection \<open>C6: estimates are not logged\<close>

text \<open>
  C6. For a \<open>storyEstimateGiven\<close> or a \<open>storyEstimateCleared\<close> event of the room of the
  state, every state the reducer returns has the \<open>actionLog\<close> of the input state, and
  differs from the input state in \<open>estimations\<close> only. The reducer returns a state exactly
  when the event has a payload and the state has an \<open>estimations\<close> object (it throws a
  \<open>TypeError\<close> otherwise), and it does not write to the input object.
\<close>

theorem estimates_are_not_logged:
  assumes "isEvent ''storyEstimateGiven'' a \<or> isEvent ''storyEstimateCleared'' a"
      and "roomId (objs st r) = e_roomId (a_event a)"
      and "r < nextRef st"
  shows "(\<forall>s'. resultState (eventReducer env r a st) = Some s'
            \<longrightarrow> actionLog s' = actionLog (objs st r)
                \<and> s' = (objs st r)\<lparr>estimations := estimations s'\<rparr>)
       \<and> (resultState (eventReducer env r a st) \<noteq> None
            \<longleftrightarrow> e_payload (a_event a) \<noteq> None \<and> estimations (objs st r) \<noteq> None)
       \<and> objs (storeAfter (eventReducer env r a st)) r = objs st r"
proof -
  have ft: "onFailedJoinRoom (objs st r) (a_event a) = FallsThrough"
    using assms(1)
    by (intro not_rejected_falls_through other_name_not_failed_join) (auto simp: isEvent_iff)
  from assms(1) show ?thesis
  proof
    assume "isEvent ''storyEstimateGiven'' a"
    then have "eventReducer env r a st
        = applyHandler env \<lparr>h_fn = storyEstimateGiven_fn, h_log = LogAbsent\<rparr> (a_event a) r st"
      using ft assms(2) by (simp add: eventReducer_def reduceWith_in_room isEvent_iff handler_of)
    then show ?thesis
      using assms(3)
      by (auto simp: applyHandler_unlogged storyEstimateGiven_fn_def resultState_def
          allocate_simps bindE_def payloadOf_def getProp_def split: option.splits)
  next
    assume "isEvent ''storyEstimateCleared'' a"
    then have "eventReducer env r a st
        = applyHandler env \<lparr>h_fn = storyEstimateCleared_fn, h_log = LogAbsent\<rparr> (a_event a) r st"
      using ft assms(2) by (simp add: eventReducer_def reduceWith_in_room isEvent_iff handler_of)
    then show ?thesis
      using assms(3)
      by (auto simp: applyHandler_unlogged storyEstimateCleared_fn_def resultState_def
          allocate_simps bindE_def payloadOf_def getProp_def Let_def split: option.splits)
  qed
qed

theorem estimates_are_not_logged_witness:
  "resultState (eventReducer exampleEnv 0 benEstimated (storeOf annaInRoom))
     = Some (annaInRoom\<lparr>estimations := Some [''s1'' \<mapsto> Some [''u1'' \<mapsto> Some 5, ''u2'' \<mapsto> Some 8]]\<rparr>)
   \<and> resultState (eventReducer exampleEnv 0 benCleared (storeOf annaInRoom))
     = Some (annaInRoom\<lparr>estimations := Some [''s1'' \<mapsto> Some [''u1'' \<mapsto> Some 5]]\<rparr>)
   \<and> (\<exists>s'. resultState (eventReducer exampleEnv 0 benEstimated (storeOf annaInRoom)) = Some s'
         \<and> actionLog s' = Some [])
   \<and> (\<exists>s'. resultState (eventReducer exampleEnv 0 benCleared (storeOf annaInRoom)) = Some s'
         \<and> actionLog s' = Some [])"
proof -
  have given: "isEvent ''storyEstimateGiven'' benEstimated
                 \<or> isEvent ''storyEstimateCleared'' benEstimated"
    by (simp add: isEvent_iff benEstimated_def)
  have cleared: "isEvent ''storyEstimateGiven'' benCleared
                 \<or> isEvent ''storyEstimateCleared'' benCleared"
    by (simp add: isEvent_iff benCleared_def)
  have room: "roomId (objs (storeOf annaInRoom) 0) = e_roomId (a_event benEstimated)"
    "roomId (objs (storeOf annaInRoom) 0) = e_roomId (a_event benCleared)"
    by (simp_all add: storeOf_def annaInRoom_def benEstimated_def benCleared_def)
  have ref: "0 < nextRef (storeOf annaInRoom)"
    by (simp add: storeOf_def)
  have log: "actionLog (objs (storeOf annaInRoom) 0) = Some []"
    by (simp add: storeOf_def annaInRoom_def emptyState_def)
  have est: "estimations (objs (storeOf annaInRoom) 0) \<noteq> None"
    by (simp add: storeOf_def annaInRoom_def)
  have pl: "e_payload (a_event benEstimated) \<noteq> None" "e_payload (a_event benCleared) \<noteq> None"
    by (simp_all add: benEstimated_def benCleared_def)
  note g = estimates_are_not_logged[OF given room(1) ref, of exampleEnv]
  note c = estimates_are_not_logged[OF cleared room(2) ref, of exampleEnv]
  have eg: "resultState (eventReducer exampleEnv 0 benEstimated (storeOf annaInRoom))
     = Some (annaInRoom\<lparr>estimations := Some [''s1'' \<mapsto> Some [''u1'' \<mapsto> Some 5, ''u2'' \<mapsto> Some 8]]\<rparr>)"
    by (simp add: reducer_defs eventActionHandlers_def storyEstimateGiven_fn_def
        benEstimated_def annaInRoom_def emptyPayload_def)
  have ec: "resultState (eventReducer exampleEnv 0 benCleared (storeOf annaInRoom))
     = Some (annaInRoom\<lparr>estimations := Some [''s1'' \<mapsto> Some [''u1'' \<mapsto> Some 5]]\<rparr>)"
    by (simp add: reducer_defs eventActionHandlers_def storyEstimateCleared_fn_def
        benCleared_def annaInRoom_def emptyPayload_def)
  have lg: "\<exists>s'. resultState (eventReducer exampleEnv 0 benEstimated (storeOf annaInRoom)) = Some s'
         \<and> actionLog s' = Some []"
    using g est pl(1) log by auto
  have lc: "\<exists>s'. resultState (eventReducer exampleEnv 0 benCleared (storeOf annaInRoom)) = Some s'
         \<and> actionLog s' = Some []"
    using c est pl(2) log by auto
  show ?thesis
    using eg ec lg lc by blast
qed

subsection \<open>C7: a join rejected for lack of authorization\<close>

text \<open>
  C7. When the server rejects a \<open>joinRoom\<close> command and the reason says
  \<open>Not Authorized\<close> (and the reducer has not already taken the reason for a username
  validation error, which it checks first), the reducer returns a new state that is the
  input state with \<open>authorizationFailed\<close> set to the room of the rejected command: every
  other field, \<open>unseenError\<close> and \<open>actionLog\<close> among them, is the input's. It returns
  at once: nothing is logged and the outcome is the same whatever the table of handlers
  holds, so no handler runs. The input object is not written to.
\<close>

theorem authorization_failure_recorded:
  assumes "e_name (a_event a) = Some ''commandRejected''"
      and "e_payload (a_event a) = Some p"
      and "p_command p = Some c"
      and "cmd_name c = Some ''joinRoom''"
      and "p_reason p = Some reason"
      and "str_includes reason ''Not Authorized''"
      and "\<not> (str_includes reason ''validation Error'' \<and> str_includes reason ''/username'')"
      and "r < nextRef st"
  shows "resultState (eventReducer env r a st)
           = Some ((objs st r)\<lparr>authorizationFailed := cmd_roomId c\<rparr>)
       \<and> trace (eventReducer env r a st) = []
       \<and> objs (storeAfter (eventReducer env r a st)) r = objs st r
       \<and> (\<forall>handlers. reduceWith handlers env r a st = eventReducer env r a st)"
proof -
  have guard: "onFailedJoinRoom (objs st r) (a_event a)
                 = Returns [] ((objs st r)\<lparr>authorizationFailed := cmd_roomId c\<rparr>)"
    using assms by (auto simp: onFailedJoinRoom_def isFailedJoinRoom_def)
  have any: "reduceWith handlers env r a st =
      \<lparr>returned = Inr (nextRef st),
       storeAfter = snd (allocate ((objs st r)\<lparr>authorizationFailed := cmd_roomId c\<rparr>) st),
       trace = []\<rparr>" for handlers
    by (simp add: reduceWith_def guard allocate_def Let_def)
  show ?thesis
    using \<open>r < nextRef st\<close>
    by (simp add: eventReducer_def any resultState_def allocate_simps)
qed

theorem authorization_failure_recorded_witness:
  "str_includes ''Precondition Error during joinRoom: Not Authorized!'' ''Not Authorized''
   \<and> resultState (eventReducer exampleEnv 0 joinRejected (storeOf annaJoining))
       = Some (annaJoining\<lparr>authorizationFailed := Some ''r2''\<rparr>)
   \<and> trace (eventReducer exampleEnv 0 joinRejected (storeOf annaJoining)) = []
   \<and> objs (storeAfter (eventReducer exampleEnv 0 joinRejected (storeOf annaJoining))) 0
       = annaJoining"
proof -
  have 1: "e_name (a_event joinRejected) = Some ''commandRejected''"
    and 2: "e_payload (a_event joinRejected) = Some rejection"
    by (simp_all add: joinRejected_def)
  have 3: "p_command rejection = Some joinOfR2"
    and 5: "p_reason rejection = Some ''Precondition Error during joinRoom: Not Authorized!''"
    by (simp_all add: rejection_def)
  have 4: "cmd_name joinOfR2 = Some ''joinRoom''"
    by (simp add: joinOfR2_def)
  have 6: "str_includes ''Precondition Error during joinRoom: Not Authorized!'' ''Not Authorized''"
    by simp
  have 7: "\<not> (str_includes ''Precondition Error during joinRoom: Not Authorized!''
                  ''validation Error''
              \<and> str_includes ''Precondition Error during joinRoom: Not Authorized!''
                  ''/username'')"
    by simp
  have 8: "0 < nextRef (storeOf annaJoining)"
    by (simp add: storeOf_def)
  show ?thesis
    using authorization_failure_recorded[OF 1 2 3 4 5 6 7 8, of exampleEnv] 6
    by (simp add: storeOf_def joinOfR2_def)
qed

subsection \<open>C8: the reducer and the object it is given\<close>

text \<open>
  C8 says that the reducer never writes into the state object it is given, also when a
  state without a room receives \<open>joinedRoom\<close>. In that case it does write: before the
  room check, \<open>state.roomId = event.roomId\<close> assigns into the input object, while every
  other change of the reducer goes into a copy. After the call the \<open>roomId\<close> of the input
  object is the room of the event. (\<open>reduceWith_keeps_input\<close> above is the rest of the
  claim: without that assignment, the input object is as it was.)
\<close>

theorem adoption_writes_into_input:
  assumes "adoptsRoom (objs st r) (a_event a)"
      and "r < nextRef st"
  shows "objs (storeAfter (eventReducer env r a st)) r
           = (objs st r)\<lparr>roomId := e_roomId (a_event a)\<rparr>"
  using assms by (simp add: eventReducer_def reduceWith_adopts)

theorem adoption_writes_into_input_witness:
  "roomId annaJoining = None
   \<and> objs (storeOf annaJoining) 0 = annaJoining
   \<and> objs (storeAfter (eventReducer exampleEnv 0 annaJoined (storeOf annaJoining))) 0
       = annaJoining\<lparr>roomId := Some ''r1''\<rparr>
   \<and> objs (storeAfter (eventReducer exampleEnv 0 annaJoined (storeOf annaJoining))) 0
       \<noteq> objs (storeOf annaJoining) 0"
proof -
  have 1: "adoptsRoom (objs (storeOf annaJoining) 0) (a_event annaJoined)"
    by (simp add: adoptsRoom_def example_simps truthy_def annaJoined_def)
  have 2: "0 < nextRef (storeOf annaJoining)"
    by (simp add: example_simps)
  have w: "objs (storeAfter (eventReducer exampleEnv 0 annaJoined (storeOf annaJoining))) 0
       = annaJoining\<lparr>roomId := Some ''r1''\<rparr>"
    using adoption_writes_into_input[OF 1 2, of exampleEnv]
    by (simp add: example_simps annaJoined_def)
  have "annaJoining\<lparr>roomId := Some ''r1''\<rparr> \<noteq> annaJoining" (is "?x \<noteq> _")
  proof
    assume "?x = annaJoining"
    then have "roomId ?x = roomId annaJoining"
      by (rule arg_cong)
    then show False
      by (simp add: example_simps)
  qed
  then show ?thesis
    using w by (simp add: example_simps)
qed

subsection \<open>C9: an action type without a handler\<close>

text \<open>
  C9 as stated: when the type of the action has no entry in the table of handlers and the
  room of the event is the room of the state, the reducer returns the state unchanged,
  logs a warning and never throws. It fails twice. The type \<open>toString\<close> has no entry,
  but the lookup finds the function that every object inherits, and the call of its
  \<open>fn\<close> throws. And whatever the type, the reducer handles the rejection of a join
  before it looks at the table: it returns a new state.
\<close>

theorem unknown_type_not_ignored:
  "map_of (eventActionHandlers exampleEnv) (a_type inheritedType) = None
   \<and> roomId annaInRoom = e_roomId (a_event inheritedType)
   \<and> returned (eventReducer exampleEnv 0 inheritedType (storeOf annaInRoom)) = Inl TypeError
   \<and> map_of (eventActionHandlers exampleEnv) (a_type untypedRejection) = None
   \<and> roomId annaInRoom = e_roomId (a_event untypedRejection)
   \<and> returned (eventReducer exampleEnv 0 untypedRejection (storeOf annaInRoom)) = Inr 1
   \<and> resultState (eventReducer exampleEnv 0 untypedRejection (storeOf annaInRoom))
       = Some (annaInRoom\<lparr>authorizationFailed := Some ''r2''\<rparr>)
   \<and> authorizationFailed annaInRoom = None"
  by (simp add: reducer_defs eventActionHandlers_def objectPrototypeProperties_def
      inheritedType_def untypedRejection_def rejection_def joinOfR2_def emptyPayload_def
      annaInRoom_def emptyState_def)

text \<open>
  C9, amended. When the type of the action has no entry in the table of handlers and is
  not a name that the table inherits from \<open>Object.prototype\<close>, the room of the event is
  the room of the state, and the first block of the reducer falls through (the event is
  not a rejected \<open>joinRoom\<close> command with a missing reason, a username validation error
  or \<open>Not Authorized\<close>), the reducer returns the very object it was given, leaves the
  store as it was, makes one call to the logger, and does not throw.
\<close>

theorem unknown_type_ignored:
  assumes "map_of (eventActionHandlers env) (a_type a) = None"
      and "a_type a \<notin> set objectPrototypeProperties"
      and "roomId (objs st r) = e_roomId (a_event a)"
      and "onFailedJoinRoom (objs st r) (a_event a) = FallsThrough"
  shows "eventReducer env r a st =
           \<lparr>returned = Inr r, storeAfter = st, trace = [WarnNoHandler a]\<rparr>"
proof -
  have "lookupHandler (map_of (eventActionHandlers env)) (a_type a) = NoHandler"
    using assms(1,2) by (simp add: lookupHandler_def)
  then show ?thesis
    using assms(3,4) by (simp add: eventReducer_def reduceWith_no_handler)
qed

theorem unknown_type_ignored_witness:
  "map_of (eventActionHandlers exampleEnv) ''MODERATOR_SET'' = None
   \<and> ''MODERATOR_SET'' \<notin> set objectPrototypeProperties
   \<and> eventReducer exampleEnv 0 moderatorSet (storeOf annaInRoom)
       = \<lparr>returned = Inr 0, storeAfter = storeOf annaInRoom,
          trace = [WarnNoHandler moderatorSet]\<rparr>"
proof -
  have 1: "map_of (eventActionHandlers exampleEnv) (a_type moderatorSet) = None"
    by (simp add: moderatorSet_def eventActionHandlers_def)
  have 2: "a_type moderatorSet \<notin> set objectPrototypeProperties"
    by (simp add: moderatorSet_def objectPrototypeProperties_def)
  have 3: "roomId (objs (storeOf annaInRoom) 0) = e_roomId (a_event moderatorSet)"
    by (simp add: moderatorSet_def storeOf_def annaInRoom_def)
  have 4: "onFailedJoinRoom (objs (storeOf annaInRoom) 0) (a_event moderatorSet) = FallsThrough"
    by (simp add: moderatorSet_def onFailedJoinRoom_def isFailedJoinRoom_def)
  show ?thesis
    using unknown_type_ignored[OF 1 2 3 4] 1 2 by (simp add: moderatorSet_def)
qed

subsection \<open>C10: a transition function that returns nothing\<close>

text \<open>
  C10. Take any table of handlers and an event that reaches its handler (the first block of
  the reducer falls through and the room of the event is the room of the state). If the
  transition function of the handler returns a falsy value, the reducer goes on with the
  input state: the log is composed from the input state as both the old and the new state,
  the state it returns differs from the input state in \<open>actionLog\<close> at most, the input
  object is not written to, and the outcome is the one of a handler whose transition
  function returns \<open>state\<close> itself.
\<close>

theorem falsy_transition_keeps_state:
  assumes "handlers (a_type a) = Some h"
      and "onFailedJoinRoom (objs st r) (a_event a) = FallsThrough"
      and "roomId (objs st r) = e_roomId (a_event a)"
      and "h_fn h (objs st r) (e_payload (a_event a)) (a_event a) = (effs, Inr Falsy)"
      and "r < nextRef st"
  shows "(case updateActionLog env (h_log h) (objs st r) (objs st r) (a_event a) of
            Inl x \<Rightarrow> returned (reduceWith handlers env r a st) = Inl x
          | Inr None \<Rightarrow> returned (reduceWith handlers env r a st) = Inr r
          | Inr (Some c) \<Rightarrow> resultState (reduceWith handlers env r a st) = Some c)
       \<and> (\<forall>s'. resultState (reduceWith handlers env r a st) = Some s'
              \<longrightarrow> s' = (objs st r)\<lparr>actionLog := actionLog s'\<rparr>)
       \<and> objs (storeAfter (reduceWith handlers env r a st)) r = objs st r
       \<and> reduceWith
             (handlers(a_type a \<mapsto> h\<lparr>h_fn := \<lambda>state payload event. (effs, Inr TheState)\<rparr>))
             env r a st
           = reduceWith handlers env r a st"
proof -
  let ?h' = "h\<lparr>h_fn := \<lambda>state payload event. (effs, Inr TheState)\<rparr>"
  have run: "reduceWith handlers env r a st = applyHandler env h (a_event a) r st"
    using assms by (simp add: reduceWith_in_room)
  have run': "reduceWith (handlers(a_type a \<mapsto> ?h')) env r a st
                = applyHandler env ?h' (a_event a) r st"
    using assms by (simp add: reduceWith_in_room)
  have same: "applyHandler env ?h' (a_event a) r st = applyHandler env h (a_event a) r st"
    using assms(4) by (simp add: applyHandler_def)
  show ?thesis
    using assms(4,5)
    by (auto simp: run' same run applyHandler_def resultState_def allocate_def Let_def
        dest: updateActionLog_frame split: sum.splits option.splits)
qed

theorem falsy_transition_keeps_state_witness:
  "resultState (reduceWith pingTable exampleEnv 0 ping (storeOf annaInRoom))
     = Some (annaInRoom\<lparr>actionLog := Some [\<lparr>tstamp = ''12:00:00'', logId = ''log-1'',
                                     message = Some ''ping'', isError = None\<rparr>]\<rparr>)
   \<and> objs (storeAfter (reduceWith pingTable exampleEnv 0 ping (storeOf annaInRoom))) 0
       = annaInRoom"
proof -
  let ?h = "\<lparr>h_fn = (\<lambda>state payload event. ([], Inr Falsy)), h_log = LogString ''ping''\<rparr>"
  have 1: "pingTable (a_type ping) = Some ?h"
    by (simp add: pingTable_def ping_def)
  have 2: "onFailedJoinRoom (objs (storeOf annaInRoom) 0) (a_event ping) = FallsThrough"
    by (simp add: onFailedJoinRoom_def isFailedJoinRoom_def ping_def)
  have 3: "roomId (objs (storeOf annaInRoom) 0) = e_roomId (a_event ping)"
    by (simp add: storeOf_def annaInRoom_def ping_def)
  have 4: "h_fn ?h (objs (storeOf annaInRoom) 0) (e_payload (a_event ping)) (a_event ping)
             = ([], Inr Falsy)"
    by simp
  have 5: "0 < nextRef (storeOf annaInRoom)"
    by (simp add: storeOf_def)
  have lg: "updateActionLog exampleEnv (LogString ''ping'') annaInRoom annaInRoom (a_event ping)
     = Inr (Some (annaInRoom\<lparr>actionLog := Some [\<lparr>tstamp = ''12:00:00'', logId = ''log-1'',
                                     message = Some ''ping'', isError = None\<rparr>]\<rparr>))"
    by (simp add: updateActionLog_def truthyLog_def truthyMessage_def newLogItem_def bindE_def
        exampleEnv_def annaInRoom_def emptyState_def Let_def)
  show ?thesis
    using falsy_transition_keeps_state[where handlers = pingTable and a = ping and h = ?h
        and st = "storeOf annaInRoom" and r = 0 and effs = "[]" and env = exampleEnv] 1 2 3 5
    by (simp add: storeOf_def lg)
qed

end
